theory Spec2Isabelle
  imports Complex_Main
begin

section \<open>The shop: data model\<close>

text \<open>
  The program is one Flask module over three SQLAlchemy tables. A table is the list of
  its rows in primary-key order, a request handler is a function from the store, the
  session and the request's arguments to either an error (the exception that ends the
  request) or the committed store, the flashed messages and the response.

  Strings are lists of 8-bit characters read as the code points U+0000 to U+00FF.
  \<open>int\<close> is Python's unbounded integer. The store is SQLite: an integer it is handed
  (a key to look up, a quantity to write) must fit 64 bits, or the driver raises
  \<open>OverflowError\<close>; a NaN it is handed is written as NULL, which the \<open>NOT NULL\<close> price
  column refuses with \<open>IntegrityError\<close>.
\<close>

datatype error =
  NotFound | ValueError | AttributeError | OSError | OverflowError | IntegrityError

subsection \<open>Numbers\<close>

text \<open>
  A Python \<open>float\<close> is a finite number, an infinity or a NaN. The sum and the product
  follow IEEE 754 on the infinities and on NaN; on finite numbers they are the exact
  ones: rounding, and a finite result too large for a double, are left out, and no
  statement below depends on them. \<open>float_of_int\<close> is the conversion Python applies
  to an \<open>int\<close> operand of a \<open>float\<close>.
\<close>

datatype pyfloat = Fin real | PInf | NInf | NaN

instantiation pyfloat :: "{zero, plus, times}"
begin

definition zero_pyfloat :: pyfloat where
  "zero_pyfloat = Fin 0"

fun plus_pyfloat :: "pyfloat \<Rightarrow> pyfloat \<Rightarrow> pyfloat" where
  "plus_pyfloat NaN y = NaN"
| "plus_pyfloat x NaN = NaN"
| "plus_pyfloat PInf NInf = NaN"
| "plus_pyfloat NInf PInf = NaN"
| "plus_pyfloat PInf y = PInf"
| "plus_pyfloat x PInf = PInf"
| "plus_pyfloat NInf y = NInf"
| "plus_pyfloat x NInf = NInf"
| "plus_pyfloat (Fin a) (Fin b) = Fin (a + b)"

fun times_pyfloat :: "pyfloat \<Rightarrow> pyfloat \<Rightarrow> pyfloat" where
  "times_pyfloat NaN y = NaN"
| "times_pyfloat x NaN = NaN"
| "times_pyfloat (Fin a) (Fin b) = Fin (a * b)"
| "times_pyfloat (Fin a) PInf = (if a = 0 then NaN else if 0 < a then PInf else NInf)"
| "times_pyfloat (Fin a) NInf = (if a = 0 then NaN else if 0 < a then NInf else PInf)"
| "times_pyfloat PInf (Fin b) = (if b = 0 then NaN else if 0 < b then PInf else NInf)"
| "times_pyfloat NInf (Fin b) = (if b = 0 then NaN else if 0 < b then NInf else PInf)"
| "times_pyfloat PInf PInf = PInf"
| "times_pyfloat NInf NInf = PInf"
| "times_pyfloat PInf NInf = NInf"
| "times_pyfloat NInf PInf = NInf"

instance ..

end

definition float_of_int :: "int \<Rightarrow> pyfloat" where
  "float_of_int i = Fin (real_of_int i)"

text \<open>What SQLite stores as an \<open>INTEGER\<close>: the signed 64-bit numbers.\<close>

definition sqlite_int :: "int \<Rightarrow> bool" where
  "sqlite_int v = (- (2 ^ 63) \<le> v \<and> v < 2 ^ 63)"

record user =
  u_id :: nat
  username :: string
  password_hash :: string
  is_admin :: bool
  u_created_at :: nat

record item =
  i_id :: nat
  name :: string
  price :: pyfloat
  image_url :: "string option"
  i_created_at :: nat

record cart_row =
  c_id :: nat
  user_id :: nat
  item_id :: nat
  quantity :: int

record db =
  users :: "user list"
  items :: "item list"
  carts :: "cart_row list"

text \<open>
  The session cookie holds at most the key \<open>user_id\<close>. The cookie is signed, and
  \<open>login\<close> alone writes it, with the key of a row of the user table.
\<close>

type_synonym session = "nat option"

text \<open>A flashed message with its category; one line of the rendered cart.\<close>

type_synonym flash = "string \<times> string"

record cart_line =
  l_cart_id :: nat
  l_item_id :: nat
  l_name :: string
  l_price :: pyfloat
  l_quantity :: int
  l_image_url :: "string option"
  l_line_total :: pyfloat

text \<open>
  A response is a redirect to a named endpoint or a rendered template. The context of a
  template is kept for \<open>cart.html\<close> only (the lines and the total).
\<close>

datatype response = Redirect string | Render string | RenderCart "cart_line list" pyfloat

type_synonym result = "error + (db \<times> flash list \<times> response)"

text \<open>
  An exception ends the request before \<open>db.session.commit()\<close>, so the store a request
  leaves behind is the one it committed, or the one it started from.
\<close>

definition db_after :: "db \<Rightarrow> result \<Rightarrow> db" where
  "db_after d r = (case r of Inl e \<Rightarrow> d | Inr (d', fs, resp) \<Rightarrow> d')"

subsection \<open>Strings and forms\<close>

text \<open>\<open>str.isspace\<close> on the code points below 256.\<close>

definition isspace :: "char \<Rightarrow> bool" where
  "isspace c = ((of_char c :: nat) \<in> {9, 10, 11, 12, 13, 28, 29, 30, 31, 32, 133, 160})"

definition strip :: "string \<Rightarrow> string" where
  "strip s = rev (dropWhile isspace (rev (dropWhile isspace s)))"

text \<open>
  \<open>str.lower\<close> on the code points below 256: the ASCII capitals and the Latin-1
  capitals (U+00C0 to U+00DE without the multiplication sign) move up by 32.
\<close>

definition lower_char :: "char \<Rightarrow> char" where
  "lower_char c =
     (let n = (of_char c :: nat)
      in if (65 \<le> n \<and> n \<le> 90) \<or> (192 \<le> n \<and> n \<le> 222 \<and> n \<noteq> 215)
         then char_of (n + 32) else c)"

definition lower :: "string \<Rightarrow> string" where
  "lower s = map lower_char s"

text \<open>\<open>s.rsplit('.', 1)[-1]\<close>: what follows the last dot, all of \<open>s\<close> without a dot.\<close>

definition rsplit_last :: "string \<Rightarrow> string" where
  "rsplit_last s = rev (takeWhile (\<lambda>c. c \<noteq> CHR ''.'') (rev s))"

text \<open>\<open>os.path.join\<close> of two components on POSIX.\<close>

definition path_join :: "string \<Rightarrow> string \<Rightarrow> string" where
  "path_join a b =
     (if b \<noteq> [] \<and> hd b = CHR ''/'' then b
      else if a = [] \<or> last a = CHR ''/'' then a @ b
      else a @ ''/'' @ b)"

text \<open>\<open>request.form\<close> is a dictionary; \<open>request.form.get(key, default)\<close>.\<close>

type_synonym form = "string \<rightharpoonup> string"

definition form_get :: "form \<Rightarrow> string \<Rightarrow> string \<Rightarrow> string" where
  "form_get f k dflt = (case f k of None \<Rightarrow> dflt | Some v \<Rightarrow> v)"

datatype http_method = GET | POST

text \<open>
  \<open>int(s)\<close> and \<open>float(s)\<close> are the interpreter's: the handlers take them as
  parameters, \<open>None\<close> where the interpreter raises \<open>ValueError\<close>, and every statement
  about a handler holds for all such parameters.

  The examples need the two functions at some strings. \<open>int_plain\<close> is \<open>int\<close> on the
  strings made of white space, a sign and ASCII digits, and on the strings with a letter
  (where it is \<open>None\<close>); it does not read the digit separators (\<open>1_000\<close>) that
  \<open>int\<close> reads, and has no limit on the number of digits. \<open>float_plain\<close> is \<open>float\<close>
  on the names \<open>nan\<close>, \<open>inf\<close> and \<open>infinity\<close> (signed or not, in any case), on the
  integer literals of at most 15 digits, and on the other strings of letters (where it
  is \<open>None\<close>); it reads no fraction, no exponent and no digit separator. No example
  uses a string on which they differ from the interpreter's.
\<close>

definition digit_of :: "char \<Rightarrow> nat option" where
  "digit_of c =
     (let n = (of_char c :: nat) in if 48 \<le> n \<and> n \<le> 57 then Some (n - 48) else None)"

fun digits_val :: "string \<Rightarrow> nat \<Rightarrow> nat option" where
  "digits_val [] acc = Some acc"
| "digits_val (c # cs) acc =
     (case digit_of c of None \<Rightarrow> None | Some v \<Rightarrow> digits_val cs (10 * acc + v))"

definition int_plain :: "string \<Rightarrow> int option" where
  "int_plain s =
     (case strip s of
        [] \<Rightarrow> None
      | c # cs \<Rightarrow>
          if c = CHR ''-'' then (if cs = [] then None else map_option (\<lambda>n. - int n) (digits_val cs 0))
          else if c = CHR ''+'' then (if cs = [] then None else map_option int (digits_val cs 0))
          else map_option int (digits_val (c # cs) 0))"

definition float_plain :: "string \<Rightarrow> pyfloat option" where
  "float_plain s =
     (let t = lower (strip s);
          neg = (t \<noteq> [] \<and> hd t = CHR ''-'');
          unsigned = (if t \<noteq> [] \<and> (hd t = CHR ''-'' \<or> hd t = CHR ''+'') then tl t else t)
      in if unsigned = ''nan'' then Some NaN
         else if unsigned = ''inf'' \<or> unsigned = ''infinity''
         then Some (if neg then NInf else PInf)
         else map_option float_of_int (int_plain s))"

subsection \<open>Queries\<close>

text \<open>\<open>Model.query.get(id)\<close>: the row with that primary key.\<close>

definition User_get :: "db \<Rightarrow> nat \<Rightarrow> user option" where
  "User_get d uid = find (\<lambda>u. u_id u = uid) (users d)"

definition Item_get :: "db \<Rightarrow> nat \<Rightarrow> item option" where
  "Item_get d iid = find (\<lambda>i. i_id i = iid) (items d)"

definition Cart_get :: "db \<Rightarrow> nat \<Rightarrow> cart_row option" where
  "Cart_get d cid = find (\<lambda>r. c_id r = cid) (carts d)"

text \<open>
  \<open>Model.query.get_or_404(id)\<close>: the driver refuses a key that does not fit 64 bits
  with \<open>OverflowError\<close>; a key that fits and has no row gives the 404.
\<close>

definition Item_get_or_404 :: "db \<Rightarrow> nat \<Rightarrow> error + item" where
  "Item_get_or_404 d iid =
     (if \<not> sqlite_int (int iid) then Inl OverflowError
      else case Item_get d iid of None \<Rightarrow> Inl NotFound | Some it \<Rightarrow> Inr it)"

definition Cart_get_or_404 :: "db \<Rightarrow> nat \<Rightarrow> error + cart_row" where
  "Cart_get_or_404 d cid =
     (if \<not> sqlite_int (int cid) then Inl OverflowError
      else case Cart_get d cid of None \<Rightarrow> Inl NotFound | Some row \<Rightarrow> Inr row)"

text \<open>
  The key SQLite gives a new row of an \<open>INTEGER PRIMARY KEY\<close> table: one more than the
  largest key in the table, 1 in an empty table. (Keys are given by this rule alone, from
  1 on: a table never holds the largest 64-bit key.)
\<close>

definition next_id :: "nat list \<Rightarrow> nat" where
  "next_id ids = Suc (fold max ids 0)"

subsection \<open>Helpers\<close>

definition current_user :: "db \<Rightarrow> session \<Rightarrow> user option" where
  "current_user d s =
     (case s of
        None \<Rightarrow> None
      | Some uid \<Rightarrow> if uid = 0 then None else User_get d uid)"

definition login_required :: "(db \<Rightarrow> session \<Rightarrow> 'a \<Rightarrow> result) \<Rightarrow> db \<Rightarrow> session \<Rightarrow> 'a \<Rightarrow> result" where
  "login_required view_func d s a =
     (if current_user d s = None
      then Inr (d, [(''Please login first.'', ''warn'')], Redirect ''login'')
      else view_func d s a)"

definition admin_required :: "(db \<Rightarrow> session \<Rightarrow> 'a \<Rightarrow> result) \<Rightarrow> db \<Rightarrow> session \<Rightarrow> 'a \<Rightarrow> result" where
  "admin_required view_func d s a =
     (case current_user d s of
        None \<Rightarrow> Inr (d, [(''Admin access required.'', ''error'')], Redirect ''items'')
      | Some u \<Rightarrow>
          if \<not> is_admin u
          then Inr (d, [(''Admin access required.'', ''error'')], Redirect ''items'')
          else view_func d s a)"

section \<open>Cart\<close>

subsection \<open>\<open>add_to_cart\<close>\<close>

text \<open>
  The commit of line 225 writes \<open>row.quantity + 1\<close>: when that does not fit 64 bits
  the driver raises \<open>OverflowError\<close> and nothing is written.
\<close>

definition add_to_cart_view :: "db \<Rightarrow> session \<Rightarrow> nat \<Rightarrow> result" where
  "add_to_cart_view d s iid =
     (case current_user d s of
        None \<Rightarrow> Inl AttributeError
      | Some u \<Rightarrow>
         (case Item_get_or_404 d iid of
            Inl err \<Rightarrow> Inl err
          | Inr it \<Rightarrow>
             (case find (\<lambda>r. user_id r = u_id u \<and> item_id r = i_id it) (carts d) of
                Some row \<Rightarrow>
                  if \<not> sqlite_int (quantity row + 1) then Inl OverflowError
                  else
                    Inr (d\<lparr>carts := map (\<lambda>r. if c_id r = c_id row
                                              then r\<lparr>quantity := quantity row + 1\<rparr> else r) (carts d)\<rparr>,
                         [(''Added '' @ name it @ '' to cart.'', ''ok'')], Redirect ''items'')
              | None \<Rightarrow>
                  Inr (d\<lparr>carts := carts d @
                          [\<lparr>c_id = next_id (map c_id (carts d)), user_id = u_id u,
                            item_id = i_id it, quantity = 1\<rparr>]\<rparr>,
                       [(''Added '' @ name it @ '' to cart.'', ''ok'')], Redirect ''items''))))"

definition add_to_cart :: "db \<Rightarrow> session \<Rightarrow> nat \<Rightarrow> result" where
  "add_to_cart = login_required add_to_cart_view"

subsection \<open>\<open>cart\<close>\<close>

text \<open>The loop of \<open>cart\<close> over the user's entries, with its two accumulators
  (\<open>tot\<close> is the source's \<open>total\<close>).\<close>

fun cart_loop :: "db \<Rightarrow> cart_row list \<Rightarrow> cart_line list \<Rightarrow> pyfloat \<Rightarrow> cart_line list \<times> pyfloat" where
  "cart_loop d [] cart_items tot = (cart_items, tot)"
| "cart_loop d (e # es) cart_items tot =
     (case Item_get d (item_id e) of
        None \<Rightarrow> cart_loop d es cart_items tot
      | Some it \<Rightarrow>
          (let line_total = price it * float_of_int (max 1 (quantity e))
           in cart_loop d es
                (cart_items @
                  [\<lparr>l_cart_id = c_id e, l_item_id = i_id it, l_name = name it,
                    l_price = price it, l_quantity = quantity e,
                    l_image_url = image_url it, l_line_total = line_total\<rparr>])
                (tot + line_total)))"

definition cart_view :: "db \<Rightarrow> session \<Rightarrow> unit \<Rightarrow> result" where
  "cart_view d s a =
     (case current_user d s of
        None \<Rightarrow> Inl AttributeError
      | Some u \<Rightarrow>
          (let entries = filter (\<lambda>r. user_id r = u_id u) (carts d);
               (cart_items, tot) = cart_loop d entries [] 0
           in Inr (d, [], RenderCart cart_items tot)))"

definition cart :: "db \<Rightarrow> session \<Rightarrow> unit \<Rightarrow> result" where
  "cart = login_required cart_view"

subsection \<open>\<open>update_cart\<close>\<close>

text \<open>
  \<open>int(request.form.get('quantity', '1') or 1)\<close>: 1 for an absent or empty field,
  \<open>int\<close> of the field otherwise.
\<close>

definition form_quantity :: "(string \<Rightarrow> int option) \<Rightarrow> form \<Rightarrow> int option" where
  "form_quantity py_int f =
     (case f ''quantity'' of
        None \<Rightarrow> Some 1
      | Some v \<Rightarrow> if v = [] then Some 1 else py_int v)"

text \<open>
  The quantity is read first, then the row is fetched; the commit of line 238 writes
  \<open>q\<close> when \<open>q > 0\<close>: when it does not fit 64 bits the driver raises \<open>OverflowError\<close>
  and nothing is written.
\<close>

definition update_cart_view :: "(string \<Rightarrow> int option) \<Rightarrow> db \<Rightarrow> session \<Rightarrow> nat \<times> form \<Rightarrow> result" where
  "update_cart_view py_int d s a =
     (case a of (cart_id, f) \<Rightarrow>
        (case form_quantity py_int f of
           None \<Rightarrow> Inl ValueError
         | Some q \<Rightarrow>
            (case Cart_get_or_404 d cart_id of
               Inl err \<Rightarrow> Inl err
             | Inr row \<Rightarrow>
                 if q \<le> 0
                 then Inr (d\<lparr>carts := filter (\<lambda>r. c_id r \<noteq> c_id row) (carts d)\<rparr>,
                           [(''Cart updated.'', ''ok'')], Redirect ''cart'')
                 else if \<not> sqlite_int q then Inl OverflowError
                 else Inr (d\<lparr>carts := map (\<lambda>r. if c_id r = c_id row
                                                 then r\<lparr>quantity := q\<rparr> else r) (carts d)\<rparr>,
                           [(''Cart updated.'', ''ok'')], Redirect ''cart''))))"

definition update_cart :: "(string \<Rightarrow> int option) \<Rightarrow> db \<Rightarrow> session \<Rightarrow> nat \<times> form \<Rightarrow> result" where
  "update_cart py_int = login_required (update_cart_view py_int)"

section \<open>Admin page\<close>

text \<open>
  \<open>float(request.form.get('price', '0') or 0)\<close>: 0.0 for an absent or empty field,
  \<open>float\<close> of the field otherwise.
\<close>

definition form_price :: "(string \<Rightarrow> pyfloat option) \<Rightarrow> form \<Rightarrow> pyfloat option" where
  "form_price py_float f =
     (case f ''price'' of
        None \<Rightarrow> Some (Fin 0)
      | Some v \<Rightarrow> if v = [] then Some (Fin 0) else py_float v)"

text \<open>
  The price is read before the name is looked at. The commit of line 173 writes the
  price: a NaN is refused with \<open>IntegrityError\<close> and nothing is written; an infinity
  is written as it is.
\<close>

definition admin_view :: "(string \<Rightarrow> pyfloat option) \<Rightarrow> nat \<Rightarrow> db \<Rightarrow> session \<Rightarrow> http_method \<times> form \<Rightarrow> result" where
  "admin_view py_float now d s a =
     (case a of (m, f) \<Rightarrow>
        if m = POST then
          (let nm = strip (form_get f ''name'' '''')
           in case form_price py_float f of
                None \<Rightarrow> Inl ValueError
              | Some p \<Rightarrow>
                 (let image = strip (form_get f ''image_url'' '''')
                  in if nm = []
                     then Inr (d, [(''Item name is required.'', ''error'')], Redirect ''admin'')
                     else if p = NaN then Inl IntegrityError
                     else Inr (d\<lparr>items := items d @
                                  [\<lparr>i_id = next_id (map i_id (items d)), name = nm, price = p,
                                    image_url = Some image, i_created_at = now\<rparr>]\<rparr>,
                               [(''Item added.'', ''ok'')], Redirect ''admin'')))
        else Inr (d, [], Render ''admin.html''))"

definition admin :: "(string \<Rightarrow> pyfloat option) \<Rightarrow> nat \<Rightarrow> db \<Rightarrow> session \<Rightarrow> http_method \<times> form \<Rightarrow> result" where
  "admin py_float now = admin_required (admin_view py_float now)"

definition admin_delete_item_view :: "db \<Rightarrow> session \<Rightarrow> nat \<Rightarrow> result" where
  "admin_delete_item_view d s iid =
     (case Item_get_or_404 d iid of
        Inl err \<Rightarrow> Inl err
      | Inr it \<Rightarrow>
          Inr (d\<lparr>items := filter (\<lambda>i. i_id i \<noteq> i_id it) (items d),
                 carts := filter (\<lambda>r. item_id r \<noteq> iid) (carts d)\<rparr>,
               [(''Item deleted.'', ''ok'')], Redirect ''admin''))"

definition admin_delete_item :: "db \<Rightarrow> session \<Rightarrow> nat \<Rightarrow> result" where
  "admin_delete_item = admin_required admin_delete_item_view"

section \<open>Signup\<close>

text \<open>\<open>gen_hash\<close> is werkzeug's \<open>generate_password_hash\<close>, \<open>now\<close> the clock.\<close>

definition signup :: "(string \<Rightarrow> string) \<Rightarrow> nat \<Rightarrow> db \<Rightarrow> http_method \<times> form \<Rightarrow> result" where
  "signup gen_hash now d a =
     (case a of (m, f) \<Rightarrow>
        if m = POST then
          (let uname = strip (form_get f ''username'' '''');
               pwd = strip (form_get f ''password'' '''')
           in if uname = [] \<or> pwd = []
              then Inr (d, [(''Username and password are required.'', ''error'')], Redirect ''signup'')
              else if find (\<lambda>u. username u = uname) (users d) \<noteq> None
              then Inr (d, [(''Username already exists.'', ''error'')], Redirect ''signup'')
              else Inr (d\<lparr>users := users d @
                           [\<lparr>u_id = next_id (map u_id (users d)), username = uname,
                             password_hash = gen_hash pwd,
                             is_admin = (lower uname = ''admin''), u_created_at = now\<rparr>]\<rparr>,
                        [(''Signup successful. Please login.'', ''ok'')], Redirect ''login''))
        else Inr (d, [], Render ''signup.html''))"

section \<open>Payment flow\<close>

definition payment_view :: "db \<Rightarrow> session \<Rightarrow> http_method \<Rightarrow> result" where
  "payment_view d s m =
     (if m = POST
      then Inr (d, [(''Payment marked as completed. Please upload the screenshot.'', ''ok'')],
                Redirect ''send_screenshot'')
      else Inr (d, [], Render ''payment.html''))"

definition payment :: "db \<Rightarrow> session \<Rightarrow> http_method \<Rightarrow> result" where
  "payment = login_required payment_view"

text \<open>The uploaded file, the mail, and what the handler reaches outside the store.\<close>

record upload =
  up_filename :: string
  up_data :: string

record message =
  subject :: string
  recipients :: "string list"
  body :: string
  attachments :: "(string \<times> string \<times> string) list"

text \<open>
  \<open>secure_filename\<close> is werkzeug's; \<open>file_save path data\<close> tells whether \<open>f.save\<close>
  wrote the file; \<open>open_resource path\<close> gives the bytes read back, or the text of the
  exception; \<open>mail_send msg\<close> gives the text of the exception \<open>mail.send\<close> raised, if
  any.
\<close>

record env =
  ADMIN_EMAIL :: string
  UPLOAD_FOLDER :: string
  secure_filename :: "string \<Rightarrow> string"
  file_save :: "string \<Rightarrow> string \<Rightarrow> bool"
  open_resource :: "string \<Rightarrow> string + string"
  mail_send :: "message \<Rightarrow> string option"

text \<open>Lines 271 and 272: the MIME type of the attachment.\<close>

definition mime_of :: "string \<Rightarrow> string" where
  "mime_of filename =
     (let ext = (if CHR ''.'' \<in> set filename then rsplit_last (lower filename) else ''png'')
      in ''image/'' @ (if ext \<in> set [''jpg'', ''jpeg''] then ''jpeg'' else ext))"

text \<open>The body of the \<open>try\<close>: the text of the exception it raised, if any.\<close>

definition relay :: "env \<Rightarrow> db \<Rightarrow> session \<Rightarrow> string \<Rightarrow> string \<Rightarrow> string option" where
  "relay e d s filename path =
     (case current_user d s of
        None \<Rightarrow> Some (CHR 0x27 # ''NoneType'' @ CHR 0x27 # '' object has no attribute '' @ CHR 0x27 # ''username'' @ [CHR 0x27])
      | Some u \<Rightarrow>
         (case open_resource e path of
            Inl ex \<Rightarrow> Some ex
          | Inr bytes \<Rightarrow>
              mail_send e
                \<lparr>subject = ''Payment Screenshot'', recipients = [ADMIN_EMAIL e],
                 body = ''User '' @ username u @ '' uploaded a payment screenshot.'',
                 attachments = [(filename, mime_of filename, bytes)]\<rparr>))"

definition send_screenshot_view :: "env \<Rightarrow> db \<Rightarrow> session \<Rightarrow> http_method \<times> upload option \<Rightarrow> result" where
  "send_screenshot_view e d s a =
     (case a of (m, file) \<Rightarrow>
        if m = POST then
          (case file of
             None \<Rightarrow> Inr (d, [(''Please select an image file.'', ''error'')], Redirect ''send_screenshot'')
           | Some f \<Rightarrow>
               if up_filename f = []
               then Inr (d, [(''Please select an image file.'', ''error'')], Redirect ''send_screenshot'')
               else
                 (let filename = secure_filename e (up_filename f);
                      path = path_join (UPLOAD_FOLDER e) filename
                  in if \<not> file_save e path (up_data f) then Inl OSError
                     else
                       (case relay e d s filename path of
                          None \<Rightarrow>
                            Inr (d, [(''Screenshot sent to admin email!'', ''ok'')], Redirect ''success'')
                        | Some ex \<Rightarrow>
                            Inr (d, [(''Email send simulated (or failed): '' @ ex, ''warn'')],
                                 Redirect ''success''))))
        else Inr (d, [], Render ''send_screenshot.html''))"

definition send_screenshot :: "env \<Rightarrow> db \<Rightarrow> session \<Rightarrow> http_method \<times> upload option \<Rightarrow> result" where
  "send_screenshot e = login_required (send_screenshot_view e)"

definition success_view :: "db \<Rightarrow> session \<Rightarrow> unit \<Rightarrow> result" where
  "success_view d s a =
     (case current_user d s of
        None \<Rightarrow> Inl AttributeError
      | Some u \<Rightarrow>
          Inr (d\<lparr>carts := filter (\<lambda>r. user_id r \<noteq> u_id u) (carts d)\<rparr>, [], Render ''success.html''))"

definition success :: "db \<Rightarrow> session \<Rightarrow> unit \<Rightarrow> result" where
  "success = login_required success_view"

section \<open>The specification's cart view\<close>

text \<open>
  The specification's \<open>viewCart\<close>, in its own words: every entry of the user is joined
  against the catalog, an entry whose item is gone gives no line, the line total is
  the price times \<open>max(1, quantity)\<close>, and the total is the sum of the line totals,
  added from 0.0 in the order of the lines.
\<close>

definition line_of :: "cart_row \<Rightarrow> item \<Rightarrow> cart_line" where
  "line_of e it =
     \<lparr>l_cart_id = c_id e, l_item_id = i_id it, l_name = name it, l_price = price it,
      l_quantity = quantity e, l_image_url = image_url it,
      l_line_total = price it * float_of_int (max 1 (quantity e))\<rparr>"

definition entry_lines :: "db \<Rightarrow> cart_row \<Rightarrow> cart_line list" where
  "entry_lines d e = (case Item_get d (item_id e) of None \<Rightarrow> [] | Some it \<Rightarrow> [line_of e it])"

definition viewCart_lines :: "db \<Rightarrow> nat \<Rightarrow> cart_line list" where
  "viewCart_lines d uid = concat (map (entry_lines d) (filter (\<lambda>r. user_id r = uid) (carts d)))"

definition viewCart_total :: "cart_line list \<Rightarrow> pyfloat" where
  "viewCart_total ls = foldl (+) 0 (map l_line_total ls)"

text \<open>
  The specification's case-insensitive equality with \<open>admin\<close>: the string has the five
  letters of \<open>admin\<close>, each one small or capital (the capital of an ASCII letter is 32
  code points below it).
\<close>

definition admin_ci :: "string \<Rightarrow> bool" where
  "admin_ci s =
     list_all2 (\<lambda>c l. c = l \<or> (of_char c :: nat) + 32 = of_char l) s ''admin''"

section \<open>Stores for the examples\<close>

text \<open>
  The two users and the three items of \<open>seed_data\<close> (password hashes and image
  addresses shortened), and a cart: two Red Summer Dresses and one Classic Black Gown
  for the user \<open>user\<close>, one Floral Casual Dress for \<open>admin\<close>.
\<close>

definition admin_user :: user where
  "admin_user =
     \<lparr>u_id = 1, username = ''admin'', password_hash = ''h1'', is_admin = True, u_created_at = 0\<rparr>"

definition demo_user :: user where
  "demo_user =
     \<lparr>u_id = 2, username = ''user'', password_hash = ''h2'', is_admin = False, u_created_at = 0\<rparr>"

definition shop :: db where
  "shop =
     \<lparr>users = [admin_user, demo_user],
      items =
        [\<lparr>i_id = 1, name = ''Red Summer Dress'', price = Fin 1299, image_url = Some ''u1'', i_created_at = 0\<rparr>,
         \<lparr>i_id = 2, name = ''Classic Black Gown'', price = Fin 2499, image_url = Some ''u2'', i_created_at = 0\<rparr>,
         \<lparr>i_id = 3, name = ''Floral Casual Dress'', price = Fin 1599, image_url = Some ''u3'', i_created_at = 0\<rparr>],
      carts =
        [\<lparr>c_id = 1, user_id = 2, item_id = 1, quantity = 2\<rparr>,
         \<lparr>c_id = 2, user_id = 2, item_id = 2, quantity = 1\<rparr>,
         \<lparr>c_id = 3, user_id = 1, item_id = 3, quantity = 1\<rparr>]\<rparr>"

text \<open>The same store with one more entry of \<open>user\<close>, for an item that is not in the catalog.\<close>

definition shop_orphan :: db where
  "shop_orphan = shop\<lparr>carts := carts shop @ [\<lparr>c_id = 4, user_id = 2, item_id = 9, quantity = 5\<rparr>]\<rparr>"

text \<open>
  The store \<open>shop\<close> after \<open>user\<close> has set the quantity of the first entry to the
  largest number SQLite stores.
\<close>

definition shop_full :: db where
  "shop_full =
     shop\<lparr>carts :=
       [\<lparr>c_id = 1, user_id = 2, item_id = 1, quantity = 9223372036854775807\<rparr>,
        \<lparr>c_id = 2, user_id = 2, item_id = 2, quantity = 1\<rparr>,
        \<lparr>c_id = 3, user_id = 1, item_id = 3, quantity = 1\<rparr>]\<rparr>"

text \<open>
  An environment where the upload is stored and the mail server refuses the connection.
  \<open>secure_filename\<close> is given as the identity: it leaves the file names of the examples
  as they are.
\<close>

definition mail_down :: env where
  "mail_down =
     \<lparr>ADMIN_EMAIL = ''admin@example.com'', UPLOAD_FOLDER = ''/app/uploads'',
      secure_filename = (\<lambda>n. n), file_save = (\<lambda>path data. True),
      open_resource = (\<lambda>path. Inr ''bytes''),
      mail_send = (\<lambda>msg. Some ''Connection refused'')\<rparr>"

section \<open>Auxiliary facts\<close>

lemma login_required_Some:
  "current_user d s = Some u \<Longrightarrow> login_required view_func d s a = view_func d s a"
  by (simp add: login_required_def)

lemma find_SomeD: "find P xs = Some x \<Longrightarrow> P x \<and> x \<in> set xs"
  by (auto simp: find_Some_iff)

lemma find_append_None: "find P xs = None \<Longrightarrow> find P (xs @ ys) = find P ys"
  by (induction xs) (auto split: if_splits)

lemma Item_get_SomeD: "Item_get d iid = Some it \<Longrightarrow> i_id it = iid \<and> it \<in> set (items d)"
  unfolding Item_get_def by (drule find_SomeD) simp

lemma Cart_get_SomeD: "Cart_get d cid = Some row \<Longrightarrow> c_id row = cid \<and> row \<in> set (carts d)"
  unfolding Cart_get_def by (drule find_SomeD) simp

lemma Item_get_carts [simp]: "Item_get (d\<lparr>carts := cs\<rparr>) iid = Item_get d iid"
  by (simp add: Item_get_def)

lemma current_user_carts [simp]: "current_user (d\<lparr>carts := cs\<rparr>) s = current_user d s"
  by (simp add: current_user_def User_get_def split: option.split)

lemma current_user_shop:
  "current_user shop (Some 1) = Some admin_user" "current_user shop (Some 2) = Some demo_user"
  "current_user shop_orphan (Some 2) = Some demo_user"
  by (simp_all add: current_user_def User_get_def shop_def shop_orphan_def admin_user_def demo_user_def)

subsection \<open>Fresh keys\<close>

lemma fold_max_ge: "a \<le> fold max ids (a::nat)"
  by (induction ids arbitrary: a) (auto intro: order_trans[OF max.cobounded2])

lemma fold_max_mem: "x \<in> set ids \<Longrightarrow> x \<le> fold max ids (a::nat)"
proof (induction ids arbitrary: a)
  case Nil
  then show ?case by simp
next
  case (Cons y ys)
  show ?case
  proof (cases "x = y")
    case True
    have "y \<le> max y a" by simp
    also have "\<dots> \<le> fold max ys (max y a)" by (rule fold_max_ge)
    finally show ?thesis using True by simp
  next
    case False
    with Cons show ?thesis by simp
  qed
qed

lemma lt_next_id: "x \<in> set ids \<Longrightarrow> x < next_id ids"
  by (simp add: next_id_def fold_max_mem less_Suc_eq_le)

subsection \<open>The loop of \<open>cart\<close> against the specification's view\<close>

lemma cart_loop_eq:
  "cart_loop d es acc t =
     (acc @ concat (map (entry_lines d) es),
      foldl (+) t (map l_line_total (concat (map (entry_lines d) es))))"
  by (induction es arbitrary: acc t)
     (simp_all add: entry_lines_def line_of_def Let_def split: option.split)

lemma cart_view_eq:
  "current_user d s = Some u \<Longrightarrow>
   cart d s () =
     Inr (d, [], RenderCart (viewCart_lines d (u_id u)) (viewCart_total (viewCart_lines d (u_id u))))"
  by (simp add: cart_def login_required_def cart_view_def cart_loop_eq viewCart_lines_def
        viewCart_total_def Let_def)

lemma entry_lines_cart_id: "l \<in> set (entry_lines d e) \<Longrightarrow> l_cart_id l = c_id e"
  by (auto simp: entry_lines_def line_of_def split: option.splits)

lemma entry_lines_item_id:
  assumes "l \<in> set (entry_lines d e)"
  shows "l_item_id l = item_id e"
proof (cases "Item_get d (item_id e)")
  case None
  with assms show ?thesis by (simp add: entry_lines_def)
next
  case (Some it)
  with assms Item_get_SomeD[OF Some] show ?thesis by (simp add: entry_lines_def line_of_def)
qed

lemma entry_lines_total:
  "l \<in> set (entry_lines d e) \<Longrightarrow> l_line_total l = l_price l * float_of_int (max 1 (l_quantity l))"
  by (auto simp: entry_lines_def line_of_def split: option.splits)

section \<open>The properties\<close>

subsection \<open>Viewing the cart\<close>

text \<open>
  C3. For a logged-in user, \<open>cart\<close> renders the specification's view and leaves the
  store as it was: the lines are those of the user's entries whose item is in the
  catalog, in the order of the entries; an entry whose item is gone gives no line and
  stays in the store; every line total is the price times \<open>max(1, quantity)\<close>; the
  total is the sum of the line totals.
\<close>

theorem cart_lines_and_total:
  assumes "current_user d s = Some u"
  shows "cart d s () =
           Inr (d, [], RenderCart (viewCart_lines d (u_id u))
                         (viewCart_total (viewCart_lines d (u_id u))))
       \<and> (\<forall>l \<in> set (viewCart_lines d (u_id u)).
             l_line_total l = l_price l * float_of_int (max 1 (l_quantity l)))
       \<and> (\<forall>e \<in> set (carts d). Item_get d (item_id e) = None \<longrightarrow> entry_lines d e = [])
       \<and> (\<forall>e \<in> set (carts d). \<forall>it. Item_get d (item_id e) = Some it \<longrightarrow>
             entry_lines d e = [line_of e it])"
proof (intro conjI ballI allI impI)
  show "cart d s () =
          Inr (d, [], RenderCart (viewCart_lines d (u_id u))
                        (viewCart_total (viewCart_lines d (u_id u))))"
    by (rule cart_view_eq[OF assms])
next
  fix l assume "l \<in> set (viewCart_lines d (u_id u))"
  then show "l_line_total l = l_price l * float_of_int (max 1 (l_quantity l))"
    by (auto simp: viewCart_lines_def entry_lines_total)
qed (simp_all add: entry_lines_def)

theorem cart_lines_and_total_witness:
  "current_user shop_orphan (Some 2) = Some demo_user
   \<and> cart shop_orphan (Some 2) () =
       Inr (shop_orphan, [],
            RenderCart
              [\<lparr>l_cart_id = 1, l_item_id = 1, l_name = ''Red Summer Dress'', l_price = Fin 1299,
                l_quantity = 2, l_image_url = Some ''u1'', l_line_total = Fin 2598\<rparr>,
               \<lparr>l_cart_id = 2, l_item_id = 2, l_name = ''Classic Black Gown'', l_price = Fin 2499,
                l_quantity = 1, l_image_url = Some ''u2'', l_line_total = Fin 2499\<rparr>]
              (Fin 5097))
   \<and> \<lparr>c_id = 4, user_id = 2, item_id = 9, quantity = 5\<rparr> \<in> set (carts shop_orphan)
   \<and> Item_get shop_orphan 9 = None"
proof -
  have u: "current_user shop_orphan (Some 2) = Some demo_user" by (rule current_user_shop)
  have ls: "viewCart_lines shop_orphan (u_id demo_user) =
              [\<lparr>l_cart_id = 1, l_item_id = 1, l_name = ''Red Summer Dress'', l_price = Fin 1299,
                l_quantity = 2, l_image_url = Some ''u1'', l_line_total = Fin 2598\<rparr>,
               \<lparr>l_cart_id = 2, l_item_id = 2, l_name = ''Classic Black Gown'', l_price = Fin 2499,
                l_quantity = 1, l_image_url = Some ''u2'', l_line_total = Fin 2499\<rparr>]"
    by (simp add: viewCart_lines_def entry_lines_def line_of_def float_of_int_def Item_get_def shop_orphan_def
          shop_def demo_user_def)
  have "cart shop_orphan (Some 2) () =
          Inr (shop_orphan, [], RenderCart (viewCart_lines shop_orphan (u_id demo_user))
                 (viewCart_total (viewCart_lines shop_orphan (u_id demo_user))))"
    using cart_lines_and_total[OF u] by simp
  moreover have "\<lparr>c_id = 4, user_id = 2, item_id = 9, quantity = 5\<rparr> \<in> set (carts shop_orphan)"
    by (simp add: shop_orphan_def)
  moreover have "Item_get shop_orphan 9 = None"
    by (simp add: Item_get_def shop_orphan_def shop_def)
  ultimately show ?thesis using u by (simp add: ls viewCart_total_def zero_pyfloat_def)
qed

subsection \<open>The cart after a deletion, the success page\<close>

lemma current_user_items [simp]: "current_user (d\<lparr>items := is\<rparr>) s = current_user d s"
  by (simp add: current_user_def User_get_def split: option.split)

lemma entry_lines_carts [simp]: "entry_lines (d\<lparr>carts := cs\<rparr>) = entry_lines d"
  by (rule ext) (simp add: entry_lines_def)

lemma concat_entry_lines_filter:
  "concat (map (entry_lines d) (filter (\<lambda>r. c_id r \<noteq> cid) es)) =
   filter (\<lambda>l. l_cart_id l \<noteq> cid) (concat (map (entry_lines d) es))"
proof (induction es)
  case Nil
  then show ?case by simp
next
  case (Cons e es)
  have keep: "c_id e \<noteq> cid \<Longrightarrow> filter (\<lambda>l. l_cart_id l \<noteq> cid) (entry_lines d e) = entry_lines d e"
    by (rule filter_True) (simp add: entry_lines_cart_id)
  have drop: "c_id e = cid \<Longrightarrow> filter (\<lambda>l. l_cart_id l \<noteq> cid) (entry_lines d e) = []"
    by (simp add: filter_empty_conv entry_lines_cart_id)
  show ?case using Cons keep drop by (cases "c_id e = cid") simp_all
qed

lemma filter_swap: "filter P (filter Q xs) = filter Q (filter P xs)"
  by (induction xs) simp_all

lemma viewCart_lines_delete:
  "viewCart_lines (d\<lparr>carts := filter (\<lambda>r. c_id r \<noteq> cid) (carts d)\<rparr>) uid =
   filter (\<lambda>l. l_cart_id l \<noteq> cid) (viewCart_lines d uid)"
proof -
  have "viewCart_lines (d\<lparr>carts := filter (\<lambda>r. c_id r \<noteq> cid) (carts d)\<rparr>) uid =
        concat (map (entry_lines d)
          (filter (\<lambda>r. user_id r = uid) (filter (\<lambda>r. c_id r \<noteq> cid) (carts d))))"
    unfolding viewCart_lines_def by (simp del: filter_filter)
  also have "\<dots> = concat (map (entry_lines d)
          (filter (\<lambda>r. c_id r \<noteq> cid) (filter (\<lambda>r. user_id r = uid) (carts d))))"
    by (simp only: filter_swap)
  also have "\<dots> = filter (\<lambda>l. l_cart_id l \<noteq> cid) (viewCart_lines d uid)"
    unfolding viewCart_lines_def by (rule concat_entry_lines_filter)
  finally show ?thesis .
qed

text \<open>
  C10. For a logged-in user, a request to \<open>success\<close> deletes every entry of that user
  and nothing else. The handler reads the session and the store only: nothing records
  whether \<open>payment\<close> or \<open>send_screenshot\<close> ran before.
\<close>

theorem success_clears_cart:
  assumes "current_user d s = Some u"
  shows "success d s () =
           Inr (d\<lparr>carts := filter (\<lambda>r. user_id r \<noteq> u_id u) (carts d)\<rparr>, [], Render ''success.html'')"
  using assms by (simp add: success_def login_required_def success_view_def)

theorem success_clears_cart_witness:
  "current_user shop (Some 2) = Some demo_user
   \<and> carts shop \<noteq> []
   \<and> success shop (Some 2) () =
       Inr (shop\<lparr>carts := [\<lparr>c_id = 3, user_id = 1, item_id = 3, quantity = 1\<rparr>]\<rparr>, [],
            Render ''success.html'')"
proof -
  have u: "current_user shop (Some 2) = Some demo_user" by (rule current_user_shop)
  have "filter (\<lambda>r. user_id r \<noteq> u_id demo_user) (carts shop) =
          [\<lparr>c_id = 3, user_id = 1, item_id = 3, quantity = 1\<rparr>]"
    by (simp add: shop_def demo_user_def)
  moreover have "carts shop \<noteq> []" by (simp add: shop_def)
  ultimately show ?thesis using u success_clears_cart[OF u] by simp
qed

subsection \<open>The cart after an item is deleted, checkout\<close>

lemma admin_required_admin:
  "current_user d s = Some u \<Longrightarrow> is_admin u \<Longrightarrow> admin_required view_func d s a = view_func d s a"
  by (simp add: admin_required_def)

lemma find_filter: "(\<And>x. P x \<Longrightarrow> Q x) \<Longrightarrow> find P (filter Q xs) = find P xs"
  by (induction xs) auto

lemma entry_lines_after_delete:
  assumes "item_id e \<noteq> iid"
  shows "entry_lines (d\<lparr>items := filter (\<lambda>i. i_id i \<noteq> iid) (items d)\<rparr>) e =
         entry_lines d e"
proof -
  have "find (\<lambda>i. i_id i = item_id e) (filter (\<lambda>i. i_id i \<noteq> iid) (items d)) =
        find (\<lambda>i. i_id i = item_id e) (items d)"
    using assms by (intro find_filter) simp
  then show ?thesis by (simp add: entry_lines_def Item_get_def)
qed

lemma concat_entry_lines_item_filter:
  "concat (map (entry_lines d) (filter (\<lambda>r. item_id r \<noteq> iid) es)) =
   filter (\<lambda>l. l_item_id l \<noteq> iid) (concat (map (entry_lines d) es))"
proof (induction es)
  case Nil
  then show ?case by simp
next
  case (Cons e es)
  have keep: "item_id e \<noteq> iid \<Longrightarrow> filter (\<lambda>l. l_item_id l \<noteq> iid) (entry_lines d e) = entry_lines d e"
    by (rule filter_True) (simp add: entry_lines_item_id)
  have drop: "item_id e = iid \<Longrightarrow> filter (\<lambda>l. l_item_id l \<noteq> iid) (entry_lines d e) = []"
    by (simp add: filter_empty_conv entry_lines_item_id)
  show ?case using Cons keep drop by (cases "item_id e = iid") simp_all
qed

lemma viewCart_lines_item_delete:
  "viewCart_lines (d\<lparr>items := filter (\<lambda>i. i_id i \<noteq> iid) (items d),
                     carts := filter (\<lambda>r. item_id r \<noteq> iid) (carts d)\<rparr>) uid =
   filter (\<lambda>l. l_item_id l \<noteq> iid) (viewCart_lines d uid)"
proof -
  let ?d' = "d\<lparr>items := filter (\<lambda>i. i_id i \<noteq> iid) (items d),
                carts := filter (\<lambda>r. item_id r \<noteq> iid) (carts d)\<rparr>"
  let ?es = "filter (\<lambda>r. item_id r \<noteq> iid) (filter (\<lambda>r. user_id r = uid) (carts d))"
  have "viewCart_lines ?d' uid =
        concat (map (entry_lines ?d')
          (filter (\<lambda>r. user_id r = uid) (filter (\<lambda>r. item_id r \<noteq> iid) (carts d))))"
    unfolding viewCart_lines_def by (simp del: filter_filter)
  also have "\<dots> = concat (map (entry_lines ?d') ?es)"
    by (simp only: filter_swap)
  also have "map (entry_lines ?d') ?es = map (entry_lines d) ?es"
    by (rule map_cong[OF refl]) (simp add: entry_lines_after_delete)
  also have "concat (map (entry_lines d) ?es) =
             filter (\<lambda>l. l_item_id l \<noteq> iid) (viewCart_lines d uid)"
    unfolding viewCart_lines_def by (rule concat_entry_lines_item_filter)
  finally show ?thesis .
qed

text \<open>
  C2. For a logged-in user who uploads a file with a name, the file being stored: when
  the relay raises nothing, \<open>send_screenshot\<close> reports success and redirects to
  \<open>success\<close>; when the relay raises (as it does when \<open>mail.send\<close> always fails), the
  exception is flashed as a warning and the redirect to \<open>success\<close> is the same. The
  store is not touched by the upload. \<open>success\<close> then deletes the user's entries, and
  the cart of the user afterwards has no line and the total 0.
\<close>

theorem checkout_clears_cart:
  assumes "current_user d s = Some u" and "up_filename f \<noteq> []"
    and "file_save e (path_join (UPLOAD_FOLDER e) (secure_filename e (up_filename f))) (up_data f)"
  shows "(relay e d s (secure_filename e (up_filename f))
              (path_join (UPLOAD_FOLDER e) (secure_filename e (up_filename f))) = None \<longrightarrow>
            send_screenshot e d s (POST, Some f) =
              Inr (d, [(''Screenshot sent to admin email!'', ''ok'')], Redirect ''success''))
       \<and> (\<forall>ex. relay e d s (secure_filename e (up_filename f))
              (path_join (UPLOAD_FOLDER e) (secure_filename e (up_filename f))) = Some ex \<longrightarrow>
            send_screenshot e d s (POST, Some f) =
              Inr (d, [(''Email send simulated (or failed): '' @ ex, ''warn'')], Redirect ''success''))
       \<and> ((\<forall>msg. mail_send e msg \<noteq> None) \<longrightarrow>
            relay e d s (secure_filename e (up_filename f))
              (path_join (UPLOAD_FOLDER e) (secure_filename e (up_filename f))) \<noteq> None)
       \<and> success d s () =
           Inr (d\<lparr>carts := filter (\<lambda>r. user_id r \<noteq> u_id u) (carts d)\<rparr>, [], Render ''success.html'')
       \<and> cart (d\<lparr>carts := filter (\<lambda>r. user_id r \<noteq> u_id u) (carts d)\<rparr>) s () =
           Inr (d\<lparr>carts := filter (\<lambda>r. user_id r \<noteq> u_id u) (carts d)\<rparr>, [], RenderCart [] 0)"
proof (intro conjI impI allI)
  assume "relay e d s (secure_filename e (up_filename f))
              (path_join (UPLOAD_FOLDER e) (secure_filename e (up_filename f))) = None"
  then show "send_screenshot e d s (POST, Some f) =
              Inr (d, [(''Screenshot sent to admin email!'', ''ok'')], Redirect ''success'')"
    using assms by (simp add: send_screenshot_def login_required_def send_screenshot_view_def Let_def)
next
  fix ex
  assume "relay e d s (secure_filename e (up_filename f))
              (path_join (UPLOAD_FOLDER e) (secure_filename e (up_filename f))) = Some ex"
  then show "send_screenshot e d s (POST, Some f) =
              Inr (d, [(''Email send simulated (or failed): '' @ ex, ''warn'')], Redirect ''success'')"
    using assms by (simp add: send_screenshot_def login_required_def send_screenshot_view_def Let_def)
next
  assume "\<forall>msg. mail_send e msg \<noteq> None"
  then show "relay e d s (secure_filename e (up_filename f))
              (path_join (UPLOAD_FOLDER e) (secure_filename e (up_filename f))) \<noteq> None"
    using assms(1) by (simp add: relay_def split: sum.split)
next
  show "success d s () =
           Inr (d\<lparr>carts := filter (\<lambda>r. user_id r \<noteq> u_id u) (carts d)\<rparr>, [], Render ''success.html'')"
    using assms(1) by (simp add: success_def login_required_def success_view_def)
next
  let ?d' = "d\<lparr>carts := filter (\<lambda>r. user_id r \<noteq> u_id u) (carts d)\<rparr>"
  have u': "current_user ?d' s = Some u" using assms(1) by simp
  have "viewCart_lines ?d' (u_id u) = []"
    by (simp add: viewCart_lines_def)
  with cart_view_eq[OF u'] show "cart ?d' s () = Inr (?d', [], RenderCart [] 0)"
    by (simp add: viewCart_total_def zero_pyfloat_def)
qed

lemma viewCart_lines_shop:
  "viewCart_lines shop (u_id demo_user) =
     [\<lparr>l_cart_id = 1, l_item_id = 1, l_name = ''Red Summer Dress'', l_price = Fin 1299,
       l_quantity = 2, l_image_url = Some ''u1'', l_line_total = Fin 2598\<rparr>,
      \<lparr>l_cart_id = 2, l_item_id = 2, l_name = ''Classic Black Gown'', l_price = Fin 2499,
       l_quantity = 1, l_image_url = Some ''u2'', l_line_total = Fin 2499\<rparr>]"
  by (simp add: viewCart_lines_def entry_lines_def line_of_def float_of_int_def Item_get_def shop_def demo_user_def)

theorem checkout_clears_cart_witness:
  "current_user shop (Some 2) = Some demo_user
   \<and> up_filename \<lparr>up_filename = ''shot.png'', up_data = ''bytes''\<rparr> \<noteq> []
   \<and> file_save mail_down
        (path_join (UPLOAD_FOLDER mail_down)
           (secure_filename mail_down (up_filename \<lparr>up_filename = ''shot.png'', up_data = ''bytes''\<rparr>)))
        (up_data \<lparr>up_filename = ''shot.png'', up_data = ''bytes''\<rparr>)
   \<and> send_screenshot mail_down shop (Some 2)
        (POST, Some \<lparr>up_filename = ''shot.png'', up_data = ''bytes''\<rparr>) =
       Inr (shop, [(''Email send simulated (or failed): Connection refused'', ''warn'')],
            Redirect ''success'')
   \<and> success shop (Some 2) () =
       Inr (shop\<lparr>carts := [\<lparr>c_id = 3, user_id = 1, item_id = 3, quantity = 1\<rparr>]\<rparr>, [],
            Render ''success.html'')
   \<and> cart (shop\<lparr>carts := [\<lparr>c_id = 3, user_id = 1, item_id = 3, quantity = 1\<rparr>]\<rparr>) (Some 2) () =
       Inr (shop\<lparr>carts := [\<lparr>c_id = 3, user_id = 1, item_id = 3, quantity = 1\<rparr>]\<rparr>, [],
            RenderCart [] 0)"
proof -
  let ?f = "\<lparr>up_filename = ''shot.png'', up_data = ''bytes''\<rparr>"
  have u: "current_user shop (Some 2) = Some demo_user" by (rule current_user_shop)
  have n: "up_filename ?f \<noteq> []" by simp
  have sv: "file_save mail_down
        (path_join (UPLOAD_FOLDER mail_down) (secure_filename mail_down (up_filename ?f)))
        (up_data ?f)"
    by (simp add: mail_down_def)
  have r: "relay mail_down shop (Some 2) (secure_filename mail_down (up_filename ?f))
             (path_join (UPLOAD_FOLDER mail_down) (secure_filename mail_down (up_filename ?f))) =
           Some ''Connection refused''"
    by (simp add: relay_def u mail_down_def)
  have c: "filter (\<lambda>r. user_id r \<noteq> u_id demo_user) (carts shop) =
             [\<lparr>c_id = 3, user_id = 1, item_id = 3, quantity = 1\<rparr>]"
    by (simp add: shop_def demo_user_def)
  note t = checkout_clears_cart[OF u n sv, unfolded c]
  from t r have "send_screenshot mail_down shop (Some 2) (POST, Some ?f) =
       Inr (shop, [(''Email send simulated (or failed): '' @ ''Connection refused'', ''warn'')],
            Redirect ''success'')"
    by blast
  then have "send_screenshot mail_down shop (Some 2) (POST, Some ?f) =
       Inr (shop, [(''Email send simulated (or failed): Connection refused'', ''warn'')],
            Redirect ''success'')"
    by simp
  moreover from t have "success shop (Some 2) () =
       Inr (shop\<lparr>carts := [\<lparr>c_id = 3, user_id = 1, item_id = 3, quantity = 1\<rparr>]\<rparr>, [],
            Render ''success.html'')"
    and "cart (shop\<lparr>carts := [\<lparr>c_id = 3, user_id = 1, item_id = 3, quantity = 1\<rparr>]\<rparr>) (Some 2) () =
       Inr (shop\<lparr>carts := [\<lparr>c_id = 3, user_id = 1, item_id = 3, quantity = 1\<rparr>]\<rparr>, [],
            RenderCart [] 0)"
    by blast+
  ultimately show ?thesis using u n sv by blast
qed

subsection \<open>Signup\<close>

lemma of_char_lt_256: "(of_char c :: nat) < 256"
  by (rule nat_of_char_less_256)

lemma char_eq_iff_of_char: "a = b \<longleftrightarrow> (of_char a :: nat) = of_char b"
  by simp

lemma of_char_lower_char:
  "(of_char (lower_char c) :: nat) =
     (if (65 \<le> (of_char c :: nat) \<and> (of_char c :: nat) \<le> 90)
         \<or> (192 \<le> (of_char c :: nat) \<and> (of_char c :: nat) \<le> 222 \<and> (of_char c :: nat) \<noteq> 215)
      then of_char c + 32 else of_char c)"
  using of_char_lt_256[of c] by (auto simp: lower_char_def Let_def)

lemma lower_char_letter:
  assumes "97 \<le> (of_char l :: nat)" and "(of_char l :: nat) \<le> 122"
  shows "lower_char c = l \<longleftrightarrow> c = l \<or> (of_char c :: nat) + 32 = of_char l"
  unfolding char_eq_iff_of_char[of "lower_char c"] char_eq_iff_of_char[of c] of_char_lower_char
  using assms by auto

lemma lower_char_dot: "lower_char c = CHR ''.'' \<longleftrightarrow> c = CHR ''.''"
  unfolding char_eq_iff_of_char[of "lower_char c"] char_eq_iff_of_char[of c] of_char_lower_char
  by auto

lemma lower_eq_letters:
  assumes "\<forall>l \<in> set t. 97 \<le> (of_char l :: nat) \<and> (of_char l :: nat) \<le> 122"
  shows "lower s = t \<longleftrightarrow> list_all2 (\<lambda>c l. c = l \<or> (of_char c :: nat) + 32 = of_char l) s t"
  using assms
proof (induction s arbitrary: t)
  case Nil
  then show ?case by (auto simp: lower_def)
next
  case (Cons c cs)
  show ?case
  proof (cases t)
    case Nil
    then show ?thesis by (simp add: lower_def)
  next
    case (Cons l ls)
    with Cons.prems have l: "97 \<le> (of_char l :: nat)" "(of_char l :: nat) \<le> 122"
      and ls: "\<forall>l \<in> set ls. 97 \<le> (of_char l :: nat) \<and> (of_char l :: nat) \<le> 122"
      by simp_all
    from Cons.IH[OF ls] lower_char_letter[OF l, of c] show ?thesis
      unfolding Cons by (simp add: lower_def)
  qed
qed

lemma lower_admin: "lower s = ''admin'' \<longleftrightarrow> admin_ci s"
  unfolding admin_ci_def by (rule lower_eq_letters) simp

text \<open>
  C6. A signup whose stripped username and password are not empty, when no user has that
  username (compared exactly, so by case), creates one user with it, and the user's
  \<open>is_admin\<close> flag is true if and only if the username is \<open>admin\<close> in any mix of small
  and capital letters. A signup whose stripped username is that of an existing user, or
  whose stripped username or password is empty, is rejected and the store stays as it
  was; so every signup that creates a user is of the first kind.
\<close>

theorem signup_admin_flag:
  assumes "strip (form_get f ''username'' '''') = un" and "strip (form_get f ''password'' '''') = pw"
  shows "(un \<noteq> [] \<longrightarrow> pw \<noteq> [] \<longrightarrow> (\<forall>x \<in> set (users d). username x \<noteq> un) \<longrightarrow>
            signup gen_hash now d (POST, f) =
              Inr (d\<lparr>users := users d @
                     [\<lparr>u_id = next_id (map u_id (users d)), username = un,
                       password_hash = gen_hash pw, is_admin = admin_ci un,
                       u_created_at = now\<rparr>]\<rparr>,
                   [(''Signup successful. Please login.'', ''ok'')], Redirect ''login''))
       \<and> (un \<noteq> [] \<longrightarrow> pw \<noteq> [] \<longrightarrow> (\<exists>x \<in> set (users d). username x = un) \<longrightarrow>
            signup gen_hash now d (POST, f) =
              Inr (d, [(''Username already exists.'', ''error'')], Redirect ''signup''))
       \<and> (un = [] \<or> pw = [] \<longrightarrow>
            signup gen_hash now d (POST, f) =
              Inr (d, [(''Username and password are required.'', ''error'')], Redirect ''signup''))"
proof (intro conjI impI)
  assume "un \<noteq> []" and "pw \<noteq> []" and "\<forall>x \<in> set (users d). username x \<noteq> un"
  moreover from this have "find (\<lambda>u. username u = un) (users d) = None"
    by (simp add: find_None_iff)
  ultimately show "signup gen_hash now d (POST, f) =
              Inr (d\<lparr>users := users d @
                     [\<lparr>u_id = next_id (map u_id (users d)), username = un,
                       password_hash = gen_hash pw, is_admin = admin_ci un,
                       u_created_at = now\<rparr>]\<rparr>,
                   [(''Signup successful. Please login.'', ''ok'')], Redirect ''login'')"
    using assms by (simp add: signup_def Let_def lower_admin)
next
  assume "un \<noteq> []" and "pw \<noteq> []" and "\<exists>x \<in> set (users d). username x = un"
  moreover from this have "find (\<lambda>u. username u = un) (users d) \<noteq> None"
    by (auto simp: find_None_iff)
  ultimately show "signup gen_hash now d (POST, f) =
              Inr (d, [(''Username already exists.'', ''error'')], Redirect ''signup'')"
    using assms by (simp add: signup_def Let_def)
next
  assume "un = [] \<or> pw = []"
  then show "signup gen_hash now d (POST, f) =
              Inr (d, [(''Username and password are required.'', ''error'')], Redirect ''signup'')"
    using assms by (auto simp: signup_def Let_def)
qed

lemma strip_examples:
  "strip '' Admin '' = ''Admin''" "strip ''alice'' = ''alice''" "strip ''user'' = ''user''"
  "strip ''secret'' = ''secret''" "strip ''Dress'' = ''Dress''" "strip '' '' = []" "strip [] = []"
  by (simp_all add: strip_def isspace_def)

theorem signup_admin_flag_witness:
  "signup (\<lambda>p. ''hash:'' @ p) 7 shop (POST, [''username'' \<mapsto> '' Admin '', ''password'' \<mapsto> ''secret'']) =
     Inr (shop\<lparr>users := users shop @
            [\<lparr>u_id = 3, username = ''Admin'', password_hash = ''hash:secret'', is_admin = True,
              u_created_at = 7\<rparr>]\<rparr>,
          [(''Signup successful. Please login.'', ''ok'')], Redirect ''login'')
   \<and> signup (\<lambda>p. ''hash:'' @ p) 7 shop (POST, [''username'' \<mapsto> ''alice'', ''password'' \<mapsto> ''secret'']) =
     Inr (shop\<lparr>users := users shop @
            [\<lparr>u_id = 3, username = ''alice'', password_hash = ''hash:secret'', is_admin = False,
              u_created_at = 7\<rparr>]\<rparr>,
          [(''Signup successful. Please login.'', ''ok'')], Redirect ''login'')
   \<and> signup (\<lambda>p. ''hash:'' @ p) 7 shop (POST, [''username'' \<mapsto> ''user'', ''password'' \<mapsto> ''secret'']) =
     Inr (shop, [(''Username already exists.'', ''error'')], Redirect ''signup'')
   \<and> signup (\<lambda>p. ''hash:'' @ p) 7 shop (POST, [''username'' \<mapsto> ''alice'', ''password'' \<mapsto> '' '']) =
     Inr (shop, [(''Username and password are required.'', ''error'')], Redirect ''signup'')"
proof -
  let ?fA = "[''username'' \<mapsto> '' Admin '', ''password'' \<mapsto> ''secret'']"
  let ?fa = "[''username'' \<mapsto> ''alice'', ''password'' \<mapsto> ''secret'']"
  let ?fu = "[''username'' \<mapsto> ''user'', ''password'' \<mapsto> ''secret'']"
  let ?fb = "[''username'' \<mapsto> ''alice'', ''password'' \<mapsto> '' '']"
  have A: "strip (form_get ?fA ''username'' '''') = ''Admin''" "strip (form_get ?fA ''password'' '''') = ''secret''"
    and a: "strip (form_get ?fa ''username'' '''') = ''alice''" "strip (form_get ?fa ''password'' '''') = ''secret''"
    and u: "strip (form_get ?fu ''username'' '''') = ''user''" "strip (form_get ?fu ''password'' '''') = ''secret''"
    and b: "strip (form_get ?fb ''username'' '''') = ''alice''" "strip (form_get ?fb ''password'' '''') = []"
    by (simp_all add: form_get_def strip_examples)
  have ne: "''Admin'' \<noteq> []" "''alice'' \<noteq> []" "''user'' \<noteq> []" "''secret'' \<noteq> []" by simp_all
  have freshA: "\<forall>x \<in> set (users shop). username x \<noteq> ''Admin''"
    and fresha: "\<forall>x \<in> set (users shop). username x \<noteq> ''alice''"
    and taken: "\<exists>x \<in> set (users shop). username x = ''user''"
    by (simp_all add: shop_def admin_user_def demo_user_def)
  have n: "next_id (map u_id (users shop)) = 3"
    by (simp add: shop_def admin_user_def demo_user_def next_id_def)
  have ci: "admin_ci ''Admin'' = True" "admin_ci ''alice'' = False"
    by (simp_all add: admin_ci_def)
  note tA = signup_admin_flag[OF A, of shop "\<lambda>p. ''hash:'' @ p" 7, unfolded n ci]
  note ta = signup_admin_flag[OF a, of shop "\<lambda>p. ''hash:'' @ p" 7, unfolded n ci]
  note tu = signup_admin_flag[OF u, of shop "\<lambda>p. ''hash:'' @ p" 7]
  note tb = signup_admin_flag[OF b, of shop "\<lambda>p. ''hash:'' @ p" 7]
  from tA ne freshA have "signup (\<lambda>p. ''hash:'' @ p) 7 shop (POST, ?fA) =
     Inr (shop\<lparr>users := users shop @
            [\<lparr>u_id = 3, username = ''Admin'', password_hash = ''hash:'' @ ''secret'', is_admin = True,
              u_created_at = 7\<rparr>]\<rparr>,
          [(''Signup successful. Please login.'', ''ok'')], Redirect ''login'')"
    by blast
  moreover from ta ne fresha have "signup (\<lambda>p. ''hash:'' @ p) 7 shop (POST, ?fa) =
     Inr (shop\<lparr>users := users shop @
            [\<lparr>u_id = 3, username = ''alice'', password_hash = ''hash:'' @ ''secret'', is_admin = False,
              u_created_at = 7\<rparr>]\<rparr>,
          [(''Signup successful. Please login.'', ''ok'')], Redirect ''login'')"
    by blast
  moreover from tu ne taken have "signup (\<lambda>p. ''hash:'' @ p) 7 shop (POST, ?fu) =
     Inr (shop, [(''Username already exists.'', ''error'')], Redirect ''signup'')"
    by blast
  moreover from tb have "signup (\<lambda>p. ''hash:'' @ p) 7 shop (POST, ?fb) =
     Inr (shop, [(''Username and password are required.'', ''error'')], Redirect ''signup'')"
    by blast
  ultimately show ?thesis by simp
qed

subsection \<open>The type of the attachment\<close>

lemma lower_append: "lower (a @ b) = lower a @ lower b"
  by (simp add: lower_def)

lemma lower_no_dot: "CHR ''.'' \<in> set (lower s) \<longleftrightarrow> CHR ''.'' \<in> set s"
  unfolding lower_def set_map image_iff by (metis lower_char_dot)

lemma lower_dot: "lower ''.'' = ''.''"
  by (simp add: lower_def lower_char_dot)

lemma rsplit_last_append:
  assumes "CHR ''.'' \<notin> set ext"
  shows "rsplit_last (stem @ ''.'' @ ext) = ext"
proof -
  have "takeWhile (\<lambda>c. c \<noteq> CHR ''.'') (rev ext @ CHR ''.'' # rev stem) = rev ext"
    using assms by (subst takeWhile_append2) auto
  then show ?thesis by (simp add: rsplit_last_def)
qed

lemma mime_of_no_dot: "CHR ''.'' \<notin> set fn \<Longrightarrow> mime_of fn = ''image/png''"
  by (simp add: mime_of_def)

lemma mime_of_dot:
  assumes "CHR ''.'' \<notin> set ext"
  shows "mime_of (stem @ ''.'' @ ext) =
           (if lower ext = ''jpg'' \<or> lower ext = ''jpeg'' then ''image/jpeg''
            else ''image/'' @ lower ext)"
proof -
  have "CHR ''.'' \<notin> set (lower ext)" using assms by (simp add: lower_no_dot)
  then have "rsplit_last (lower (stem @ ''.'' @ ext)) = lower ext"
    unfolding lower_append lower_dot by (rule rsplit_last_append)
  then show ?thesis by (simp add: mime_of_def)
qed

text \<open>
  C8, as the code has it. A filename without a dot gets \<open>image/png\<close>. A filename with a
  dot gets \<open>image/\<close> followed by what stands after its last dot, in lower case, except
  that \<open>jpg\<close> and \<open>jpeg\<close> both give \<open>image/jpeg\<close>: an extension that is no image
  type is passed on as it is, not replaced by \<open>png\<close>. That type is the one attached to
  the message handed to \<open>mail.send\<close>.
\<close>

theorem mime_of_extension:
  "(CHR ''.'' \<notin> set fn \<longrightarrow> mime_of fn = ''image/png'')
   \<and> (\<forall>stem ext. fn = stem @ ''.'' @ ext \<longrightarrow> CHR ''.'' \<notin> set ext \<longrightarrow>
          mime_of fn = (if lower ext = ''jpg'' \<or> lower ext = ''jpeg'' then ''image/jpeg''
                        else ''image/'' @ lower ext))
   \<and> (\<forall>u bytes. current_user d s = Some u \<longrightarrow> open_resource e path = Inr bytes \<longrightarrow>
          relay e d s fn path =
            mail_send e
              \<lparr>subject = ''Payment Screenshot'', recipients = [ADMIN_EMAIL e],
               body = ''User '' @ username u @ '' uploaded a payment screenshot.'',
               attachments = [(fn, mime_of fn, bytes)]\<rparr>)"
proof (intro conjI impI allI)
  assume "CHR ''.'' \<notin> set fn"
  then show "mime_of fn = ''image/png''" by (rule mime_of_no_dot)
next
  fix stem ext
  assume "fn = stem @ ''.'' @ ext" and "CHR ''.'' \<notin> set ext"
  then show "mime_of fn = (if lower ext = ''jpg'' \<or> lower ext = ''jpeg'' then ''image/jpeg''
                        else ''image/'' @ lower ext)"
    using mime_of_dot by simp
next
  fix u bytes
  assume "current_user d s = Some u" and "open_resource e path = Inr bytes"
  then show "relay e d s fn path =
            mail_send e
              \<lparr>subject = ''Payment Screenshot'', recipients = [ADMIN_EMAIL e],
               body = ''User '' @ username u @ '' uploaded a payment screenshot.'',
               attachments = [(fn, mime_of fn, bytes)]\<rparr>"
    by (simp add: relay_def)
qed

text \<open>
  C8 as stated fails: \<open>receipt.pdf\<close> has an extension that is no image type, and its
  attachment is typed \<open>image/pdf\<close>, not \<open>image/png\<close>.
\<close>

theorem mime_of_unrecognized_counterexample:
  "mime_of ''receipt.pdf'' = ''image/pdf'' \<and> mime_of ''receipt.pdf'' \<noteq> ''image/png''"
  by (simp add: mime_of_def rsplit_last_def lower_def lower_char_def)

lemma lower_examples:
  "lower ''JPG'' = ''jpg''" "lower ''jpeg'' = ''jpeg''" "lower ''pdf'' = ''pdf''" "lower ''Gif'' = ''gif''"
  by code_simp+

theorem mime_of_extension_witness:
  "mime_of ''shot'' = ''image/png''
   \<and> mime_of ''shot.JPG'' = ''image/jpeg''
   \<and> mime_of ''shot.jpeg'' = ''image/jpeg''
   \<and> mime_of ''my.shot.Gif'' = ''image/gif''
   \<and> mime_of ''receipt.pdf'' = ''image/pdf''
   \<and> relay mail_down shop (Some 2) ''shot.JPG'' ''/app/uploads/shot.JPG'' =
       mail_send mail_down
         \<lparr>subject = ''Payment Screenshot'', recipients = [''admin@example.com''],
          body = ''User user uploaded a payment screenshot.'',
          attachments = [(''shot.JPG'', ''image/jpeg'', ''bytes'')]\<rparr>"
proof -
  have nd: "CHR ''.'' \<notin> set ''shot''" "CHR ''.'' \<notin> set ''JPG''" "CHR ''.'' \<notin> set ''jpeg''"
    "CHR ''.'' \<notin> set ''Gif''" "CHR ''.'' \<notin> set ''pdf''"
    by simp_all
  have sp: "''shot.JPG'' = ''shot'' @ ''.'' @ ''JPG''" "''shot.jpeg'' = ''shot'' @ ''.'' @ ''jpeg''"
    "''my.shot.Gif'' = ''my.shot'' @ ''.'' @ ''Gif''" "''receipt.pdf'' = ''receipt'' @ ''.'' @ ''pdf''"
    by simp_all
  have u: "current_user shop (Some 2) = Some demo_user" by (rule current_user_shop)
  have o: "open_resource mail_down ''/app/uploads/shot.JPG'' = Inr ''bytes''"
    by (simp add: mail_down_def)
  from mime_of_extension[of "''shot''"] nd(1)
  have m0: "mime_of ''shot'' = ''image/png''" by blast
  from mime_of_extension[of "''shot.JPG''"] sp(1) nd(2)
  have "mime_of ''shot.JPG'' = (if lower ''JPG'' = ''jpg'' \<or> lower ''JPG'' = ''jpeg'' then ''image/jpeg''
                        else ''image/'' @ lower ''JPG'')" by blast
  then have m1: "mime_of ''shot.JPG'' = ''image/jpeg''" by (simp add: lower_examples)
  from mime_of_extension[of "''shot.jpeg''"] sp(2) nd(3)
  have "mime_of ''shot.jpeg'' = (if lower ''jpeg'' = ''jpg'' \<or> lower ''jpeg'' = ''jpeg'' then ''image/jpeg''
                        else ''image/'' @ lower ''jpeg'')" by blast
  then have m2: "mime_of ''shot.jpeg'' = ''image/jpeg''" by (simp add: lower_examples)
  from mime_of_extension[of "''my.shot.Gif''"] sp(3) nd(4)
  have "mime_of ''my.shot.Gif'' = (if lower ''Gif'' = ''jpg'' \<or> lower ''Gif'' = ''jpeg'' then ''image/jpeg''
                        else ''image/'' @ lower ''Gif'')" by blast
  then have m3: "mime_of ''my.shot.Gif'' = ''image/gif''" by (simp add: lower_examples)
  from mime_of_extension[of "''receipt.pdf''"] sp(4) nd(5)
  have "mime_of ''receipt.pdf'' = (if lower ''pdf'' = ''jpg'' \<or> lower ''pdf'' = ''jpeg'' then ''image/jpeg''
                        else ''image/'' @ lower ''pdf'')" by blast
  then have m4: "mime_of ''receipt.pdf'' = ''image/pdf''" by (simp add: lower_examples)
  from mime_of_extension[of "''shot.JPG''" shop "Some 2" mail_down "''/app/uploads/shot.JPG''"] u o
  have "relay mail_down shop (Some 2) ''shot.JPG'' ''/app/uploads/shot.JPG'' =
       mail_send mail_down
         \<lparr>subject = ''Payment Screenshot'', recipients = [ADMIN_EMAIL mail_down],
          body = ''User '' @ username demo_user @ '' uploaded a payment screenshot.'',
          attachments = [(''shot.JPG'', mime_of ''shot.JPG'', ''bytes'')]\<rparr>"
    by blast
  then have r: "relay mail_down shop (Some 2) ''shot.JPG'' ''/app/uploads/shot.JPG'' =
       mail_send mail_down
         \<lparr>subject = ''Payment Screenshot'', recipients = [''admin@example.com''],
          body = ''User user uploaded a payment screenshot.'',
          attachments = [(''shot.JPG'', ''image/jpeg'', ''bytes'')]\<rparr>"
    unfolding m1 by (simp add: mail_down_def demo_user_def)
  from m0 m1 m2 m3 m4 r show ?thesis by blast
qed

subsection \<open>The 64-bit store\<close>

lemma sqlite_int_examples:
  "sqlite_int 1" "sqlite_int 2" "sqlite_int 3" "sqlite_int 5" "sqlite_int (int 1)" "sqlite_int (int 3)"
  "sqlite_int (int 7)" "sqlite_int (int 9)"
  "sqlite_int 9223372036854775807" "\<not> sqlite_int 9223372036854775808"
  "\<not> sqlite_int (int 9223372036854775808)" "\<not> sqlite_int (9223372036854775807 + 1)"
  by (simp_all add: sqlite_int_def)

lemma Item_get_or_404_cases:
  "\<not> sqlite_int (int iid) \<Longrightarrow> Item_get_or_404 d iid = Inl OverflowError"
  "sqlite_int (int iid) \<Longrightarrow> Item_get d iid = None \<Longrightarrow> Item_get_or_404 d iid = Inl NotFound"
  "sqlite_int (int iid) \<Longrightarrow> Item_get d iid = Some it \<Longrightarrow> Item_get_or_404 d iid = Inr it"
  by (simp_all add: Item_get_or_404_def)

lemma Cart_get_or_404_cases:
  "\<not> sqlite_int (int cid) \<Longrightarrow> Cart_get_or_404 d cid = Inl OverflowError"
  "sqlite_int (int cid) \<Longrightarrow> Cart_get d cid = None \<Longrightarrow> Cart_get_or_404 d cid = Inl NotFound"
  "sqlite_int (int cid) \<Longrightarrow> Cart_get d cid = Some row \<Longrightarrow> Cart_get_or_404 d cid = Inr row"
  by (simp_all add: Cart_get_or_404_def)

subsection \<open>Adding to the cart\<close>

lemma add_to_cart_key_overflow:
  "current_user d s = Some u \<Longrightarrow> \<not> sqlite_int (int iid) \<Longrightarrow> add_to_cart d s iid = Inl OverflowError"
  by (simp add: add_to_cart_def login_required_def add_to_cart_view_def Item_get_or_404_cases)

lemma add_to_cart_absent:
  "current_user d s = Some u \<Longrightarrow> sqlite_int (int iid) \<Longrightarrow> Item_get d iid = None \<Longrightarrow>
   add_to_cart d s iid = Inl NotFound"
  by (simp add: add_to_cart_def login_required_def add_to_cart_view_def Item_get_or_404_cases)

lemma add_to_cart_new:
  assumes "current_user d s = Some u" and "sqlite_int (int iid)" and "Item_get d iid = Some it"
    and "find (\<lambda>r. user_id r = u_id u \<and> item_id r = iid) (carts d) = None"
  shows "add_to_cart d s iid =
           Inr (d\<lparr>carts := carts d @
                   [\<lparr>c_id = next_id (map c_id (carts d)), user_id = u_id u,
                     item_id = iid, quantity = 1\<rparr>]\<rparr>,
                [(''Added '' @ name it @ '' to cart.'', ''ok'')], Redirect ''items'')"
  using assms Item_get_SomeD[OF assms(3)]
  by (simp add: add_to_cart_def login_required_def add_to_cart_view_def Item_get_or_404_cases)

lemma add_to_cart_again:
  assumes "current_user d s = Some u" and "sqlite_int (int iid)" and "Item_get d iid = Some it"
    and "find (\<lambda>r. user_id r = u_id u \<and> item_id r = iid) (carts d) = Some row"
    and "sqlite_int (quantity row + 1)"
  shows "add_to_cart d s iid =
           Inr (d\<lparr>carts := map (\<lambda>r. if c_id r = c_id row
                                     then r\<lparr>quantity := quantity row + 1\<rparr> else r) (carts d)\<rparr>,
                [(''Added '' @ name it @ '' to cart.'', ''ok'')], Redirect ''items'')"
  using assms Item_get_SomeD[OF assms(3)]
  by (simp add: add_to_cart_def login_required_def add_to_cart_view_def Item_get_or_404_cases)

lemma add_to_cart_quantity_overflow:
  assumes "current_user d s = Some u" and "sqlite_int (int iid)" and "Item_get d iid = Some it"
    and "find (\<lambda>r. user_id r = u_id u \<and> item_id r = iid) (carts d) = Some row"
    and "\<not> sqlite_int (quantity row + 1)"
  shows "add_to_cart d s iid = Inl OverflowError"
  using assms Item_get_SomeD[OF assms(3)]
  by (simp add: add_to_cart_def login_required_def add_to_cart_view_def Item_get_or_404_cases)

lemma add_to_cart_twice:
  assumes u: "current_user d s = Some u" and k: "sqlite_int (int iid)"
    and it: "Item_get d iid = Some it"
    and none: "find (\<lambda>r. user_id r = u_id u \<and> item_id r = iid) (carts d) = None"
  shows "carts (db_after (db_after d (add_to_cart d s iid))
                  (add_to_cart (db_after d (add_to_cart d s iid)) s iid)) =
         carts d @ [\<lparr>c_id = next_id (map c_id (carts d)), user_id = u_id u,
                     item_id = iid, quantity = 2\<rparr>]"
proof -
  let ?n = "next_id (map c_id (carts d))"
  let ?new = "\<lparr>c_id = ?n, user_id = u_id u, item_id = iid, quantity = 1\<rparr>"
  let ?d1 = "d\<lparr>carts := carts d @ [?new]\<rparr>"
  have d1: "db_after d (add_to_cart d s iid) = ?d1"
    by (simp add: add_to_cart_new[OF u k it none] db_after_def)
  have u1: "current_user ?d1 s = Some u" using u by simp
  have it1: "Item_get ?d1 iid = Some it" using it by simp
  have f1: "find (\<lambda>r. user_id r = u_id u \<and> item_id r = iid) (carts ?d1) = Some ?new"
    using none by (simp add: find_append_None)
  have q1: "sqlite_int (quantity ?new + 1)" by (simp add: sqlite_int_def)
  have fresh: "\<forall>r \<in> set (carts d). c_id r \<noteq> ?n"
  proof
    fix r assume "r \<in> set (carts d)"
    then have "c_id r < ?n" by (intro lt_next_id) simp
    then show "c_id r \<noteq> ?n" by simp
  qed
  have "map (\<lambda>r. if c_id r = ?n then r\<lparr>quantity := quantity ?new + 1\<rparr> else r) (carts d) = carts d"
    using fresh by (intro map_idI) simp
  then show ?thesis
    unfolding d1 by (simp add: add_to_cart_again[OF u1 k it1 f1 q1] db_after_def)
qed

text \<open>
  C1, as the code has it. For a logged-in user: an item key that does not fit 64 bits
  ends the request in \<open>OverflowError\<close>; a key that fits and has no item gives
  \<open>NotFound\<close> (the 404 of \<open>get_or_404\<close>); both leave the store as it was. When the item
  is in the catalog and the user has no entry for it, the store gains one entry for
  (user, item) with quantity 1, under a fresh key; a second call then leaves exactly that
  one entry for the pair, with quantity 2. When the user has an entry for the item, the
  first such entry has its quantity raised by 1 and nothing else changes, unless the
  raised quantity does not fit 64 bits: then the request ends in \<open>OverflowError\<close> and
  the store stays as it was.
\<close>

theorem add_to_cart_upsert:
  assumes "current_user d s = Some u"
  shows "(\<not> sqlite_int (int iid) \<longrightarrow>
            add_to_cart d s iid = Inl OverflowError \<and> db_after d (add_to_cart d s iid) = d)
       \<and> (sqlite_int (int iid) \<longrightarrow> Item_get d iid = None \<longrightarrow>
            add_to_cart d s iid = Inl NotFound \<and> db_after d (add_to_cart d s iid) = d)
       \<and> (sqlite_int (int iid) \<longrightarrow> Item_get d iid \<noteq> None \<longrightarrow>
            find (\<lambda>r. user_id r = u_id u \<and> item_id r = iid) (carts d) = None \<longrightarrow>
              db_after d (add_to_cart d s iid) =
                d\<lparr>carts := carts d @
                    [\<lparr>c_id = next_id (map c_id (carts d)), user_id = u_id u,
                      item_id = iid, quantity = 1\<rparr>]\<rparr>
            \<and> carts (db_after (db_after d (add_to_cart d s iid))
                       (add_to_cart (db_after d (add_to_cart d s iid)) s iid)) =
                carts d @ [\<lparr>c_id = next_id (map c_id (carts d)), user_id = u_id u,
                            item_id = iid, quantity = 2\<rparr>]
            \<and> filter (\<lambda>r. user_id r = u_id u \<and> item_id r = iid)
                 (carts (db_after (db_after d (add_to_cart d s iid))
                          (add_to_cart (db_after d (add_to_cart d s iid)) s iid))) =
                [\<lparr>c_id = next_id (map c_id (carts d)), user_id = u_id u,
                  item_id = iid, quantity = 2\<rparr>])
       \<and> (sqlite_int (int iid) \<longrightarrow> Item_get d iid \<noteq> None \<longrightarrow>
            (\<forall>row. find (\<lambda>r. user_id r = u_id u \<and> item_id r = iid) (carts d) = Some row \<longrightarrow>
               sqlite_int (quantity row + 1) \<longrightarrow>
               db_after d (add_to_cart d s iid) =
                 d\<lparr>carts := map (\<lambda>r. if c_id r = c_id row
                                       then r\<lparr>quantity := quantity row + 1\<rparr> else r) (carts d)\<rparr>))
       \<and> (sqlite_int (int iid) \<longrightarrow> Item_get d iid \<noteq> None \<longrightarrow>
            (\<forall>row. find (\<lambda>r. user_id r = u_id u \<and> item_id r = iid) (carts d) = Some row \<longrightarrow>
               \<not> sqlite_int (quantity row + 1) \<longrightarrow>
               add_to_cart d s iid = Inl OverflowError \<and> db_after d (add_to_cart d s iid) = d))"
proof (intro conjI impI allI)
  assume "\<not> sqlite_int (int iid)"
  then show "add_to_cart d s iid = Inl OverflowError"
    by (rule add_to_cart_key_overflow[OF assms])
  then show "db_after d (add_to_cart d s iid) = d"
    by (simp add: db_after_def)
next
  assume "sqlite_int (int iid)" and "Item_get d iid = None"
  then show "add_to_cart d s iid = Inl NotFound"
    by (rule add_to_cart_absent[OF assms])
  then show "db_after d (add_to_cart d s iid) = d"
    by (simp add: db_after_def)
next
  assume k: "sqlite_int (int iid)" and "Item_get d iid \<noteq> None"
    and none: "find (\<lambda>r. user_id r = u_id u \<and> item_id r = iid) (carts d) = None"
  then obtain it where it: "Item_get d iid = Some it" by auto
  show "db_after d (add_to_cart d s iid) =
          d\<lparr>carts := carts d @
              [\<lparr>c_id = next_id (map c_id (carts d)), user_id = u_id u,
                item_id = iid, quantity = 1\<rparr>]\<rparr>"
    by (simp add: add_to_cart_new[OF assms k it none] db_after_def)
  show two: "carts (db_after (db_after d (add_to_cart d s iid))
                  (add_to_cart (db_after d (add_to_cart d s iid)) s iid)) =
         carts d @ [\<lparr>c_id = next_id (map c_id (carts d)), user_id = u_id u,
                     item_id = iid, quantity = 2\<rparr>]"
    by (rule add_to_cart_twice[OF assms k it none])
  have "filter (\<lambda>r. user_id r = u_id u \<and> item_id r = iid) (carts d) = []"
    using none by (simp add: find_None_iff filter_empty_conv)
  then show "filter (\<lambda>r. user_id r = u_id u \<and> item_id r = iid)
          (carts (db_after (db_after d (add_to_cart d s iid))
                   (add_to_cart (db_after d (add_to_cart d s iid)) s iid))) =
         [\<lparr>c_id = next_id (map c_id (carts d)), user_id = u_id u,
           item_id = iid, quantity = 2\<rparr>]"
    unfolding two by simp
next
  fix row
  assume k: "sqlite_int (int iid)" and "Item_get d iid \<noteq> None"
    and row: "find (\<lambda>r. user_id r = u_id u \<and> item_id r = iid) (carts d) = Some row"
    and q: "sqlite_int (quantity row + 1)"
  then obtain it where it: "Item_get d iid = Some it" by auto
  show "db_after d (add_to_cart d s iid) =
          d\<lparr>carts := map (\<lambda>r. if c_id r = c_id row
                                then r\<lparr>quantity := quantity row + 1\<rparr> else r) (carts d)\<rparr>"
    by (simp add: add_to_cart_again[OF assms k it row q] db_after_def)
next
  fix row
  assume k: "sqlite_int (int iid)" and "Item_get d iid \<noteq> None"
    and row: "find (\<lambda>r. user_id r = u_id u \<and> item_id r = iid) (carts d) = Some row"
    and q: "\<not> sqlite_int (quantity row + 1)"
  then obtain it where it: "Item_get d iid = Some it" by auto
  show "add_to_cart d s iid = Inl OverflowError"
    by (rule add_to_cart_quantity_overflow[OF assms k it row q])
  then show "db_after d (add_to_cart d s iid) = d"
    by (simp add: db_after_def)
qed

subsection \<open>Setting a quantity\<close>

lemma update_cart_key_overflow:
  "current_user d s = Some u \<Longrightarrow> form_quantity py_int f = Some q \<Longrightarrow> \<not> sqlite_int (int cid) \<Longrightarrow>
   update_cart py_int d s (cid, f) = Inl OverflowError"
  by (simp add: update_cart_def login_required_def update_cart_view_def Cart_get_or_404_cases)

lemma update_cart_absent:
  "current_user d s = Some u \<Longrightarrow> form_quantity py_int f = Some q \<Longrightarrow> sqlite_int (int cid) \<Longrightarrow>
   Cart_get d cid = None \<Longrightarrow> update_cart py_int d s (cid, f) = Inl NotFound"
  by (simp add: update_cart_def login_required_def update_cart_view_def Cart_get_or_404_cases)

lemma update_cart_delete:
  assumes "current_user d s = Some u" and "form_quantity py_int f = Some q"
    and "sqlite_int (int cid)" and "Cart_get d cid = Some row" and "q \<le> 0"
  shows "update_cart py_int d s (cid, f) =
           Inr (d\<lparr>carts := filter (\<lambda>r. c_id r \<noteq> cid) (carts d)\<rparr>,
                [(''Cart updated.'', ''ok'')], Redirect ''cart'')"
  using assms Cart_get_SomeD[OF assms(4)]
  by (simp add: update_cart_def login_required_def update_cart_view_def Cart_get_or_404_cases)

lemma update_cart_overwrite:
  assumes "current_user d s = Some u" and "form_quantity py_int f = Some q"
    and "sqlite_int (int cid)" and "Cart_get d cid = Some row" and "0 < q" and "sqlite_int q"
  shows "update_cart py_int d s (cid, f) =
           Inr (d\<lparr>carts := map (\<lambda>r. if c_id r = cid then r\<lparr>quantity := q\<rparr> else r) (carts d)\<rparr>,
                [(''Cart updated.'', ''ok'')], Redirect ''cart'')"
  using assms Cart_get_SomeD[OF assms(4)]
  by (simp add: update_cart_def login_required_def update_cart_view_def Cart_get_or_404_cases)

lemma update_cart_quantity_overflow:
  assumes "current_user d s = Some u" and "form_quantity py_int f = Some q"
    and "sqlite_int (int cid)" and "Cart_get d cid = Some row" and "0 < q" and "\<not> sqlite_int q"
  shows "update_cart py_int d s (cid, f) = Inl OverflowError"
  using assms
  by (simp add: update_cart_def login_required_def update_cart_view_def Cart_get_or_404_cases)

text \<open>
  C4, as the code has it. For a logged-in user and a quantity field that \<open>int\<close> reads as
  \<open>q\<close>: an entry key that does not fit 64 bits ends the request in \<open>OverflowError\<close>; a
  key that fits and has no entry gives \<open>NotFound\<close>; both leave the store as it was. When
  an entry has the key, \<open>q \<le> 0\<close> deletes it; \<open>q > 0\<close> overwrites its quantity when
  \<open>q\<close> fits 64 bits, and ends the request in \<open>OverflowError\<close>, the store as it was, when
  it does not; every other entry stays as it was. After a deletion (so after setting the
  quantity to 0), the cart of any user shows the lines it showed before without the
  line of that entry, and the total is the sum of the remaining line totals.
\<close>

theorem update_cart_set_quantity:
  assumes "current_user d s = Some u" and "form_quantity py_int f = Some q"
  shows "(\<not> sqlite_int (int cid) \<longrightarrow>
            update_cart py_int d s (cid, f) = Inl OverflowError
          \<and> db_after d (update_cart py_int d s (cid, f)) = d)
       \<and> (sqlite_int (int cid) \<longrightarrow> Cart_get d cid = None \<longrightarrow>
            update_cart py_int d s (cid, f) = Inl NotFound
          \<and> db_after d (update_cart py_int d s (cid, f)) = d)
       \<and> (sqlite_int (int cid) \<longrightarrow> Cart_get d cid \<noteq> None \<longrightarrow> q \<le> 0 \<longrightarrow>
            db_after d (update_cart py_int d s (cid, f)) =
              d\<lparr>carts := filter (\<lambda>r. c_id r \<noteq> cid) (carts d)\<rparr>)
       \<and> (sqlite_int (int cid) \<longrightarrow> Cart_get d cid \<noteq> None \<longrightarrow> 0 < q \<longrightarrow> sqlite_int q \<longrightarrow>
            db_after d (update_cart py_int d s (cid, f)) =
              d\<lparr>carts := map (\<lambda>r. if c_id r = cid then r\<lparr>quantity := q\<rparr> else r) (carts d)\<rparr>)
       \<and> (sqlite_int (int cid) \<longrightarrow> Cart_get d cid \<noteq> None \<longrightarrow> 0 < q \<longrightarrow> \<not> sqlite_int q \<longrightarrow>
            update_cart py_int d s (cid, f) = Inl OverflowError
          \<and> db_after d (update_cart py_int d s (cid, f)) = d)
       \<and> (sqlite_int (int cid) \<longrightarrow> Cart_get d cid \<noteq> None \<longrightarrow> q \<le> 0 \<longrightarrow>
            (\<forall>s' u'. current_user d s' = Some u' \<longrightarrow>
               cart (db_after d (update_cart py_int d s (cid, f))) s' () =
                 Inr (db_after d (update_cart py_int d s (cid, f)), [],
                      RenderCart (filter (\<lambda>l. l_cart_id l \<noteq> cid) (viewCart_lines d (u_id u')))
                        (viewCart_total
                          (filter (\<lambda>l. l_cart_id l \<noteq> cid) (viewCart_lines d (u_id u')))))))"
proof (intro conjI impI allI)
  assume "\<not> sqlite_int (int cid)"
  then show "update_cart py_int d s (cid, f) = Inl OverflowError"
    by (rule update_cart_key_overflow[OF assms])
  then show "db_after d (update_cart py_int d s (cid, f)) = d"
    by (simp add: db_after_def)
next
  assume "sqlite_int (int cid)" and "Cart_get d cid = None"
  then show "update_cart py_int d s (cid, f) = Inl NotFound"
    by (rule update_cart_absent[OF assms])
  then show "db_after d (update_cart py_int d s (cid, f)) = d"
    by (simp add: db_after_def)
next
  assume k: "sqlite_int (int cid)" and "Cart_get d cid \<noteq> None" and q: "q \<le> 0"
  then obtain row where row: "Cart_get d cid = Some row" by auto
  show del: "db_after d (update_cart py_int d s (cid, f)) =
          d\<lparr>carts := filter (\<lambda>r. c_id r \<noteq> cid) (carts d)\<rparr>"
    by (simp add: update_cart_delete[OF assms k row q] db_after_def)
  fix s' u'
  assume u': "current_user d s' = Some u'"
  then have "current_user (d\<lparr>carts := filter (\<lambda>r. c_id r \<noteq> cid) (carts d)\<rparr>) s' = Some u'"
    by simp
  from cart_view_eq[OF this]
  show "cart (db_after d (update_cart py_int d s (cid, f))) s' () =
          Inr (db_after d (update_cart py_int d s (cid, f)), [],
               RenderCart (filter (\<lambda>l. l_cart_id l \<noteq> cid) (viewCart_lines d (u_id u')))
                 (viewCart_total
                   (filter (\<lambda>l. l_cart_id l \<noteq> cid) (viewCart_lines d (u_id u')))))"
    unfolding del by (simp add: viewCart_lines_delete)
next
  assume k: "sqlite_int (int cid)" and "Cart_get d cid \<noteq> None" and q: "0 < q" "sqlite_int q"
  then obtain row where row: "Cart_get d cid = Some row" by auto
  show "db_after d (update_cart py_int d s (cid, f)) =
          d\<lparr>carts := map (\<lambda>r. if c_id r = cid then r\<lparr>quantity := q\<rparr> else r) (carts d)\<rparr>"
    by (simp add: update_cart_overwrite[OF assms k row q] db_after_def)
next
  assume k: "sqlite_int (int cid)" and "Cart_get d cid \<noteq> None" and q: "0 < q" "\<not> sqlite_int q"
  then obtain row where row: "Cart_get d cid = Some row" by auto
  show "update_cart py_int d s (cid, f) = Inl OverflowError"
    by (rule update_cart_quantity_overflow[OF assms k row q])
  then show "db_after d (update_cart py_int d s (cid, f)) = d"
    by (simp add: db_after_def)
qed

text \<open>
  C9, as the code has it. \<open>update_cart\<close> never compares the entry's \<open>user_id\<close> with the
  session's user: for any logged-in user and any existing entry, whoever owns it, the
  request deletes the entry (\<open>q \<le> 0\<close>) or sets its quantity (\<open>q > 0\<close> fitting 64 bits).
  It does not succeed for every quantity: a positive \<open>q\<close> that does not fit 64 bits ends
  the request in \<open>OverflowError\<close> and the entry stays as it was.
\<close>

theorem update_cart_any_user:
  assumes "current_user d s = Some u" and "Cart_get d cid = Some row" and "sqlite_int (int cid)"
    and "form_quantity py_int f = Some q"
  shows "(q \<le> 0 \<longrightarrow>
            update_cart py_int d s (cid, f) =
              Inr (d\<lparr>carts := filter (\<lambda>r. c_id r \<noteq> cid) (carts d)\<rparr>,
                   [(''Cart updated.'', ''ok'')], Redirect ''cart'')
          \<and> row \<notin> set (carts (db_after d (update_cart py_int d s (cid, f)))))
       \<and> (0 < q \<longrightarrow> sqlite_int q \<longrightarrow>
            update_cart py_int d s (cid, f) =
              Inr (d\<lparr>carts := map (\<lambda>r. if c_id r = cid then r\<lparr>quantity := q\<rparr> else r) (carts d)\<rparr>,
                   [(''Cart updated.'', ''ok'')], Redirect ''cart'')
          \<and> row\<lparr>quantity := q\<rparr> \<in> set (carts (db_after d (update_cart py_int d s (cid, f)))))
       \<and> (0 < q \<longrightarrow> \<not> sqlite_int q \<longrightarrow>
            update_cart py_int d s (cid, f) = Inl OverflowError
          \<and> db_after d (update_cart py_int d s (cid, f)) = d)"
proof (intro conjI impI)
  note r = Cart_get_SomeD[OF assms(2)]
  {
    assume q: "q \<le> 0"
    note e = update_cart_delete[OF assms(1) assms(4) assms(3) assms(2) q]
    show "update_cart py_int d s (cid, f) =
              Inr (d\<lparr>carts := filter (\<lambda>r. c_id r \<noteq> cid) (carts d)\<rparr>,
                   [(''Cart updated.'', ''ok'')], Redirect ''cart'')"
      by (rule e)
    show "row \<notin> set (carts (db_after d (update_cart py_int d s (cid, f))))"
      using r by (simp add: e db_after_def)
  }
  {
    assume q: "0 < q" "sqlite_int q"
    note e = update_cart_overwrite[OF assms(1) assms(4) assms(3) assms(2) q]
    show "update_cart py_int d s (cid, f) =
              Inr (d\<lparr>carts := map (\<lambda>r. if c_id r = cid then r\<lparr>quantity := q\<rparr> else r) (carts d)\<rparr>,
                   [(''Cart updated.'', ''ok'')], Redirect ''cart'')"
      by (rule e)
    show "row\<lparr>quantity := q\<rparr> \<in> set (carts (db_after d (update_cart py_int d s (cid, f))))"
      using r by (auto simp: e db_after_def intro!: rev_image_eqI[of row])
  }
  {
    assume q: "0 < q" "\<not> sqlite_int q"
    show e: "update_cart py_int d s (cid, f) = Inl OverflowError"
      by (rule update_cart_quantity_overflow[OF assms(1) assms(4) assms(3) assms(2) q])
    show "db_after d (update_cart py_int d s (cid, f)) = d"
      by (simp add: e db_after_def)
  }
qed

subsection \<open>Deleting an item\<close>

lemma admin_delete_item_key_overflow:
  "current_user d s = Some u \<Longrightarrow> is_admin u \<Longrightarrow> \<not> sqlite_int (int iid) \<Longrightarrow>
   admin_delete_item d s iid = Inl OverflowError"
  by (simp add: admin_delete_item_def admin_required_def admin_delete_item_view_def
        Item_get_or_404_cases)

lemma admin_delete_item_absent:
  "current_user d s = Some u \<Longrightarrow> is_admin u \<Longrightarrow> sqlite_int (int iid) \<Longrightarrow> Item_get d iid = None \<Longrightarrow>
   admin_delete_item d s iid = Inl NotFound"
  by (simp add: admin_delete_item_def admin_required_def admin_delete_item_view_def
        Item_get_or_404_cases)

lemma admin_delete_item_present:
  assumes "current_user d s = Some u" and "is_admin u" and "sqlite_int (int iid)"
    and "Item_get d iid = Some it"
  shows "admin_delete_item d s iid =
           Inr (d\<lparr>items := filter (\<lambda>i. i_id i \<noteq> iid) (items d),
                  carts := filter (\<lambda>r. item_id r \<noteq> iid) (carts d)\<rparr>,
                [(''Item deleted.'', ''ok'')], Redirect ''admin'')"
  using assms Item_get_SomeD[OF assms(4)]
  by (simp add: admin_delete_item_def admin_required_def admin_delete_item_view_def
        Item_get_or_404_cases)

text \<open>
  C5, as the code has it. For a logged-in admin: an item key that does not fit 64 bits
  ends the request in \<open>OverflowError\<close>; a key that fits and has no item gives
  \<open>NotFound\<close>; both leave the store as it was. When an item has the key, the item is
  removed, the cart entries that reference it are removed, whoever owns them, and every
  other item, entry and user stays as it was. The cart of any user afterwards shows the
  lines it showed before without the lines of the deleted item.
\<close>

theorem admin_delete_item_cascade:
  assumes "current_user d s = Some u" and "is_admin u"
  shows "(\<not> sqlite_int (int iid) \<longrightarrow>
            admin_delete_item d s iid = Inl OverflowError
          \<and> db_after d (admin_delete_item d s iid) = d)
       \<and> (sqlite_int (int iid) \<longrightarrow> Item_get d iid = None \<longrightarrow>
            admin_delete_item d s iid = Inl NotFound
          \<and> db_after d (admin_delete_item d s iid) = d)
       \<and> (sqlite_int (int iid) \<longrightarrow> Item_get d iid \<noteq> None \<longrightarrow>
            db_after d (admin_delete_item d s iid) =
              d\<lparr>items := filter (\<lambda>i. i_id i \<noteq> iid) (items d),
                carts := filter (\<lambda>r. item_id r \<noteq> iid) (carts d)\<rparr>
          \<and> (\<forall>s' u'. current_user d s' = Some u' \<longrightarrow>
                cart (db_after d (admin_delete_item d s iid)) s' () =
                  Inr (db_after d (admin_delete_item d s iid), [],
                       RenderCart (filter (\<lambda>l. l_item_id l \<noteq> iid) (viewCart_lines d (u_id u')))
                         (viewCart_total
                           (filter (\<lambda>l. l_item_id l \<noteq> iid) (viewCart_lines d (u_id u')))))))"
proof (intro conjI impI allI)
  assume "\<not> sqlite_int (int iid)"
  then show "admin_delete_item d s iid = Inl OverflowError"
    by (rule admin_delete_item_key_overflow[OF assms])
  then show "db_after d (admin_delete_item d s iid) = d"
    by (simp add: db_after_def)
next
  assume "sqlite_int (int iid)" and "Item_get d iid = None"
  then show "admin_delete_item d s iid = Inl NotFound"
    by (rule admin_delete_item_absent[OF assms])
  then show "db_after d (admin_delete_item d s iid) = d"
    by (simp add: db_after_def)
next
  assume k: "sqlite_int (int iid)" and "Item_get d iid \<noteq> None"
  then obtain it where it: "Item_get d iid = Some it" by auto
  let ?d' = "d\<lparr>items := filter (\<lambda>i. i_id i \<noteq> iid) (items d),
                carts := filter (\<lambda>r. item_id r \<noteq> iid) (carts d)\<rparr>"
  show del: "db_after d (admin_delete_item d s iid) = ?d'"
    by (simp add: admin_delete_item_present[OF assms k it] db_after_def)
  fix s' u'
  assume "current_user d s' = Some u'"
  then have "current_user ?d' s' = Some u'"
    by simp
  from cart_view_eq[OF this]
  show "cart (db_after d (admin_delete_item d s iid)) s' () =
          Inr (db_after d (admin_delete_item d s iid), [],
               RenderCart (filter (\<lambda>l. l_item_id l \<noteq> iid) (viewCart_lines d (u_id u')))
                 (viewCart_total
                   (filter (\<lambda>l. l_item_id l \<noteq> iid) (viewCart_lines d (u_id u')))))"
    unfolding del by (simp only: viewCart_lines_item_delete)
qed

subsection \<open>Creating an item\<close>

lemma admin_post_unparseable:
  "current_user d s = Some u \<Longrightarrow> is_admin u \<Longrightarrow> form_price py_float f = None \<Longrightarrow>
   admin py_float now d s (POST, f) = Inl ValueError"
  by (simp add: admin_def admin_required_def admin_view_def Let_def)

lemma admin_post_no_name:
  "current_user d s = Some u \<Longrightarrow> is_admin u \<Longrightarrow> form_price py_float f = Some p \<Longrightarrow>
   strip (form_get f ''name'' '''') = [] \<Longrightarrow>
   admin py_float now d s (POST, f) =
     Inr (d, [(''Item name is required.'', ''error'')], Redirect ''admin'')"
  by (simp add: admin_def admin_required_def admin_view_def Let_def)

lemma admin_post_nan:
  "current_user d s = Some u \<Longrightarrow> is_admin u \<Longrightarrow> form_price py_float f = Some NaN \<Longrightarrow>
   strip (form_get f ''name'' '''') \<noteq> [] \<Longrightarrow>
   admin py_float now d s (POST, f) = Inl IntegrityError"
  by (simp add: admin_def admin_required_def admin_view_def Let_def)

lemma admin_post_created:
  "current_user d s = Some u \<Longrightarrow> is_admin u \<Longrightarrow> form_price py_float f = Some p \<Longrightarrow> p \<noteq> NaN \<Longrightarrow>
   strip (form_get f ''name'' '''') \<noteq> [] \<Longrightarrow>
   admin py_float now d s (POST, f) =
     Inr (d\<lparr>items := items d @
            [\<lparr>i_id = next_id (map i_id (items d)), name = strip (form_get f ''name'' ''''),
              price = p, image_url = Some (strip (form_get f ''image_url'' '''')),
              i_created_at = now\<rparr>]\<rparr>,
          [(''Item added.'', ''ok'')], Redirect ''admin'')"
  by (simp add: admin_def admin_required_def admin_view_def Let_def)

text \<open>
  C7, as the code has it. For a logged-in admin posting the form: the price is 0.0 when
  the price field is absent or empty, and \<open>float\<close> of the field otherwise. When \<open>float\<close>
  cannot read the field, the request ends in \<open>ValueError\<close> before the name is looked
  at, and no item is created. When the price is read and the stripped name is empty,
  \<open>Item name is required.\<close> is flashed and no item is created. When the name is not
  empty and the price is a NaN, the commit ends in \<open>IntegrityError\<close> and no item is
  created. Otherwise one item is created with the stripped name and that price, finite
  or infinite.
\<close>

theorem admin_create_item:
  assumes "current_user d s = Some u" and "is_admin u"
  shows "(form_price py_float f = None \<longrightarrow>
            admin py_float now d s (POST, f) = Inl ValueError
          \<and> db_after d (admin py_float now d s (POST, f)) = d)
       \<and> (form_price py_float f \<noteq> None \<longrightarrow> strip (form_get f ''name'' '''') = [] \<longrightarrow>
            admin py_float now d s (POST, f) =
              Inr (d, [(''Item name is required.'', ''error'')], Redirect ''admin''))
       \<and> (form_price py_float f = Some NaN \<longrightarrow> strip (form_get f ''name'' '''') \<noteq> [] \<longrightarrow>
            admin py_float now d s (POST, f) = Inl IntegrityError
          \<and> db_after d (admin py_float now d s (POST, f)) = d)
       \<and> (\<forall>p. form_price py_float f = Some p \<longrightarrow> p \<noteq> NaN \<longrightarrow>
            strip (form_get f ''name'' '''') \<noteq> [] \<longrightarrow>
            admin py_float now d s (POST, f) =
              Inr (d\<lparr>items := items d @
                     [\<lparr>i_id = next_id (map i_id (items d)), name = strip (form_get f ''name'' ''''),
                       price = p, image_url = Some (strip (form_get f ''image_url'' '''')),
                       i_created_at = now\<rparr>]\<rparr>,
                   [(''Item added.'', ''ok'')], Redirect ''admin''))
       \<and> (f ''price'' = None \<or> f ''price'' = Some [] \<longrightarrow> form_price py_float f = Some (Fin 0))
       \<and> (\<forall>v. f ''price'' = Some v \<longrightarrow> v \<noteq> [] \<longrightarrow> form_price py_float f = py_float v)"
proof (intro conjI impI allI)
  assume "form_price py_float f = None"
  then show "admin py_float now d s (POST, f) = Inl ValueError"
    by (rule admin_post_unparseable[OF assms])
  then show "db_after d (admin py_float now d s (POST, f)) = d"
    by (simp add: db_after_def)
next
  assume "form_price py_float f \<noteq> None" and "strip (form_get f ''name'' '''') = []"
  then show "admin py_float now d s (POST, f) =
              Inr (d, [(''Item name is required.'', ''error'')], Redirect ''admin'')"
    using admin_post_no_name[OF assms] by auto
next
  assume "form_price py_float f = Some NaN" and "strip (form_get f ''name'' '''') \<noteq> []"
  then show "admin py_float now d s (POST, f) = Inl IntegrityError"
    by (rule admin_post_nan[OF assms])
  then show "db_after d (admin py_float now d s (POST, f)) = d"
    by (simp add: db_after_def)
next
  fix p
  assume "form_price py_float f = Some p" and "p \<noteq> NaN" and "strip (form_get f ''name'' '''') \<noteq> []"
  then show "admin py_float now d s (POST, f) =
              Inr (d\<lparr>items := items d @
                     [\<lparr>i_id = next_id (map i_id (items d)), name = strip (form_get f ''name'' ''''),
                       price = p, image_url = Some (strip (form_get f ''image_url'' '''')),
                       i_created_at = now\<rparr>]\<rparr>,
                   [(''Item added.'', ''ok'')], Redirect ''admin'')"
    by (rule admin_post_created[OF assms])
next
  assume "f ''price'' = None \<or> f ''price'' = Some []"
  then show "form_price py_float f = Some (Fin 0)"
    by (auto simp: form_price_def)
next
  fix v
  assume "f ''price'' = Some v" and "v \<noteq> []"
  then show "form_price py_float f = py_float v"
    by (simp add: form_price_def)
qed

subsection \<open>The limits of the store and of the price, at the stores of the examples\<close>

lemma float_plain_examples:
  "float_plain ''abc'' = None" "float_plain ''12'' = Some (Fin 12)"
  "float_plain ''nan'' = Some NaN" "float_plain ''inf'' = Some PInf"
  "float_plain ''-inf'' = Some NInf"
  by (simp_all add: float_plain_def int_plain_def strip_def isspace_def digit_of_def
        lower_def lower_char_def float_of_int_def Let_def)

lemma int_plain_examples:
  "int_plain ''0'' = Some 0" "int_plain ''5'' = Some 5"
  "int_plain ''9223372036854775807'' = Some 9223372036854775807"
  "int_plain ''9223372036854775808'' = Some 9223372036854775808"
  by (simp_all add: int_plain_def strip_def isspace_def digit_of_def)

lemma current_user_shop_full:
  "current_user shop_full (Some 1) = Some admin_user" "current_user shop_full (Some 2) = Some demo_user"
  unfolding shop_full_def current_user_carts by (rule current_user_shop)+

lemma Item_get_shop:
  "Item_get shop 1 \<noteq> None" "Item_get shop 3 \<noteq> None" "Item_get shop 9 = None"
  "Item_get shop 9223372036854775808 = None" "Item_get shop_full 1 \<noteq> None"
  by (simp_all add: Item_get_def shop_def shop_full_def)

lemma form_quantity_examples:
  "form_quantity int_plain [''quantity'' \<mapsto> ''0''] = Some 0"
  "form_quantity int_plain [''quantity'' \<mapsto> ''5''] = Some 5"
  "form_quantity int_plain [''quantity'' \<mapsto> ''9223372036854775807''] = Some 9223372036854775807"
  "form_quantity int_plain [''quantity'' \<mapsto> ''9223372036854775808''] = Some 9223372036854775808"
  by (simp_all add: form_quantity_def int_plain_examples)

lemma Cart_get_shop:
  "Cart_get shop 1 = Some \<lparr>c_id = 1, user_id = 2, item_id = 1, quantity = 2\<rparr>"
  "Cart_get shop 7 = None" "Cart_get shop 9223372036854775808 = None"
  by (simp_all add: Cart_get_def shop_def)

lemma find_shop:
  "find (\<lambda>r. user_id r = u_id demo_user \<and> item_id r = 3) (carts shop) = None"
  "find (\<lambda>r. user_id r = u_id demo_user \<and> item_id r = 1) (carts shop) =
     Some \<lparr>c_id = 1, user_id = 2, item_id = 1, quantity = 2\<rparr>"
  "find (\<lambda>r. user_id r = u_id demo_user \<and> item_id r = 1) (carts shop_full) =
     Some \<lparr>c_id = 1, user_id = 2, item_id = 1, quantity = 9223372036854775807\<rparr>"
  by (simp_all add: shop_def shop_full_def demo_user_def)

lemma shop_full_reached:
  "db_after shop (update_cart int_plain shop (Some 2) (1, [''quantity'' \<mapsto> ''9223372036854775807''])) =
   shop_full"
proof -
  have "(0::int) < 9223372036854775807" by simp
  from update_cart_overwrite[OF current_user_shop(2) form_quantity_examples(3)
      sqlite_int_examples(5) Cart_get_shop(1) this sqlite_int_examples(9)]
  show ?thesis by (simp add: db_after_def shop_full_def shop_def)
qed

text \<open>
  C1 as stated fails at the limits of the store. No item has the key \<open>2^63\<close>, and
  adding it ends in \<open>OverflowError\<close>, not in \<open>NotFound\<close>. And \<open>update_cart\<close> can set
  the quantity of an entry to \<open>2^63 - 1\<close> (the store \<open>shop_full\<close>); adding that item
  again ends in \<open>OverflowError\<close> and the quantity is not raised.
\<close>

theorem add_to_cart_overflow_counterexample:
  "Item_get shop 9223372036854775808 = None
   \<and> add_to_cart shop (Some 2) 9223372036854775808 = Inl OverflowError
   \<and> db_after shop
        (update_cart int_plain shop (Some 2) (1, [''quantity'' \<mapsto> ''9223372036854775807''])) =
       shop_full
   \<and> add_to_cart shop_full (Some 2) 1 = Inl OverflowError
   \<and> db_after shop_full (add_to_cart shop_full (Some 2) 1) = shop_full"
proof -
  have k: "add_to_cart shop (Some 2) 9223372036854775808 = Inl OverflowError"
    by (rule add_to_cart_key_overflow[OF current_user_shop(2) sqlite_int_examples(11)])
  obtain it where it: "Item_get shop_full 1 = Some it" using Item_get_shop(5) by auto
  have q: "\<not> sqlite_int
             (quantity \<lparr>c_id = 1, user_id = 2, item_id = 1, quantity = 9223372036854775807\<rparr> + 1)"
    using sqlite_int_examples(12) by simp
  have f: "add_to_cart shop_full (Some 2) 1 = Inl OverflowError"
    by (rule add_to_cart_quantity_overflow[OF current_user_shop_full(2) sqlite_int_examples(5)
          it find_shop(3) q])
  then have "db_after shop_full (add_to_cart shop_full (Some 2) 1) = shop_full"
    by (simp add: db_after_def)
  with k f Item_get_shop(4) shop_full_reached show ?thesis by blast
qed

theorem add_to_cart_upsert_witness:
  "current_user shop (Some 2) = Some demo_user
   \<and> add_to_cart shop (Some 2) 9223372036854775808 = Inl OverflowError
   \<and> add_to_cart shop (Some 2) 9 = Inl NotFound
   \<and> db_after shop (add_to_cart shop (Some 2) 9) = shop
   \<and> db_after shop (add_to_cart shop (Some 2) 3) =
       shop\<lparr>carts := carts shop @ [\<lparr>c_id = 4, user_id = 2, item_id = 3, quantity = 1\<rparr>]\<rparr>
   \<and> filter (\<lambda>r. user_id r = 2 \<and> item_id r = 3)
       (carts (db_after (db_after shop (add_to_cart shop (Some 2) 3))
                (add_to_cart (db_after shop (add_to_cart shop (Some 2) 3)) (Some 2) 3))) =
       [\<lparr>c_id = 4, user_id = 2, item_id = 3, quantity = 2\<rparr>]
   \<and> carts (db_after shop (add_to_cart shop (Some 2) 1)) =
       [\<lparr>c_id = 1, user_id = 2, item_id = 1, quantity = 3\<rparr>,
        \<lparr>c_id = 2, user_id = 2, item_id = 2, quantity = 1\<rparr>,
        \<lparr>c_id = 3, user_id = 1, item_id = 3, quantity = 1\<rparr>]
   \<and> current_user shop_full (Some 2) = Some demo_user
   \<and> add_to_cart shop_full (Some 2) 1 = Inl OverflowError"
proof -
  have u: "current_user shop (Some 2) = Some demo_user" by (rule current_user_shop)
  have uf: "current_user shop_full (Some 2) = Some demo_user" by (rule current_user_shop_full)
  note i9 = Item_get_shop(3) and i3 = Item_get_shop(2) and i1 = Item_get_shop(1)
    and if1 = Item_get_shop(5)
  note f3 = find_shop(1) and f1 = find_shop(2) and ff = find_shop(3)
  have n: "next_id (map c_id (carts shop)) = 4" by (simp add: shop_def next_id_def)
  have uid: "u_id demo_user = 2" by (simp add: demo_user_def)
  have k1: "sqlite_int (int 1)" and k3: "sqlite_int (int 3)" and k9: "sqlite_int (int 9)"
    and kbig: "\<not> sqlite_int (int 9223372036854775808)"
    by (simp_all add: sqlite_int_def)
  have q3: "sqlite_int (quantity \<lparr>c_id = 1, user_id = 2, item_id = 1, quantity = 2\<rparr> + 1)"
    and qf: "\<not> sqlite_int
      (quantity \<lparr>c_id = 1, user_id = 2, item_id = 1, quantity = 9223372036854775807\<rparr> + 1)"
    by (simp_all add: sqlite_int_def)
  note abig = add_to_cart_upsert[OF u, of 9223372036854775808]
  note a9 = add_to_cart_upsert[OF u, of 9]
  note a3 = add_to_cart_upsert[OF u, of 3, unfolded n uid]
  note a1 = add_to_cart_upsert[OF u, of 1, unfolded uid]
  note af = add_to_cart_upsert[OF uf, of 1, unfolded uid]
  from abig kbig have "add_to_cart shop (Some 2) 9223372036854775808 = Inl OverflowError"
    by blast
  moreover from a9 k9 i9 have "add_to_cart shop (Some 2) 9 = Inl NotFound"
    and "db_after shop (add_to_cart shop (Some 2) 9) = shop" by blast+
  moreover from a3 k3 i3 f3[unfolded uid]
  have "db_after shop (add_to_cart shop (Some 2) 3) =
          shop\<lparr>carts := carts shop @ [\<lparr>c_id = 4, user_id = 2, item_id = 3, quantity = 1\<rparr>]\<rparr>"
    and "filter (\<lambda>r. user_id r = 2 \<and> item_id r = 3)
          (carts (db_after (db_after shop (add_to_cart shop (Some 2) 3))
                   (add_to_cart (db_after shop (add_to_cart shop (Some 2) 3)) (Some 2) 3))) =
          [\<lparr>c_id = 4, user_id = 2, item_id = 3, quantity = 2\<rparr>]"
    by blast+
  moreover from a1 k1 i1 f1[unfolded uid] q3
  have "db_after shop (add_to_cart shop (Some 2) 1) =
          shop\<lparr>carts := map (\<lambda>r. if c_id r = c_id \<lparr>c_id = 1, user_id = 2, item_id = 1, quantity = 2\<rparr>
                 then r\<lparr>quantity := quantity \<lparr>c_id = 1, user_id = 2, item_id = 1, quantity = 2\<rparr> + 1\<rparr>
                 else r) (carts shop)\<rparr>"
    by blast
  then have "carts (db_after shop (add_to_cart shop (Some 2) 1)) =
          [\<lparr>c_id = 1, user_id = 2, item_id = 1, quantity = 3\<rparr>,
           \<lparr>c_id = 2, user_id = 2, item_id = 2, quantity = 1\<rparr>,
           \<lparr>c_id = 3, user_id = 1, item_id = 3, quantity = 1\<rparr>]"
    by (simp add: shop_def)
  moreover from af k1 if1 ff[unfolded uid] qf
  have "add_to_cart shop_full (Some 2) 1 = Inl OverflowError" by blast
  ultimately show ?thesis using u uf by blast
qed

text \<open>
  C4 as stated fails at the limits of the store: the quantity \<open>2^63\<close> is positive, and
  setting it ends in \<open>OverflowError\<close> with the entry as it was; no entry has the key
  \<open>2^63\<close>, and the request for it ends in \<open>OverflowError\<close>, not in \<open>NotFound\<close>.
\<close>

theorem update_cart_overflow_counterexample:
  "form_quantity int_plain [''quantity'' \<mapsto> ''9223372036854775808''] = Some 9223372036854775808
   \<and> update_cart int_plain shop (Some 2) (1, [''quantity'' \<mapsto> ''9223372036854775808'']) =
       Inl OverflowError
   \<and> db_after shop
        (update_cart int_plain shop (Some 2) (1, [''quantity'' \<mapsto> ''9223372036854775808''])) =
       shop
   \<and> Cart_get shop 9223372036854775808 = None
   \<and> update_cart int_plain shop (Some 2) (9223372036854775808, [''quantity'' \<mapsto> ''0'']) =
       Inl OverflowError"
proof -
  have p: "(0::int) < 9223372036854775808" by simp
  have q: "update_cart int_plain shop (Some 2) (1, [''quantity'' \<mapsto> ''9223372036854775808'']) =
       Inl OverflowError"
    by (rule update_cart_quantity_overflow[OF current_user_shop(2) form_quantity_examples(4)
          sqlite_int_examples(5) Cart_get_shop(1) p sqlite_int_examples(10)])
  then have "db_after shop
        (update_cart int_plain shop (Some 2) (1, [''quantity'' \<mapsto> ''9223372036854775808''])) =
       shop"
    by (simp add: db_after_def)
  moreover have "update_cart int_plain shop (Some 2)
       (9223372036854775808, [''quantity'' \<mapsto> ''0'']) = Inl OverflowError"
    by (rule update_cart_key_overflow[OF current_user_shop(2) form_quantity_examples(1)
          sqlite_int_examples(11)])
  ultimately show ?thesis using q form_quantity_examples(4) Cart_get_shop(3) by blast
qed

theorem update_cart_set_quantity_witness:
  "current_user shop (Some 2) = Some demo_user
   \<and> form_quantity int_plain [''quantity'' \<mapsto> ''0''] = Some 0
   \<and> form_quantity int_plain [''quantity'' \<mapsto> ''5''] = Some 5
   \<and> form_quantity int_plain [''quantity'' \<mapsto> ''9223372036854775808''] = Some 9223372036854775808
   \<and> update_cart int_plain shop (Some 2) (9223372036854775808, [''quantity'' \<mapsto> ''0'']) =
       Inl OverflowError
   \<and> update_cart int_plain shop (Some 2) (7, [''quantity'' \<mapsto> ''0'']) = Inl NotFound
   \<and> carts (db_after shop (update_cart int_plain shop (Some 2) (1, [''quantity'' \<mapsto> ''0'']))) =
       [\<lparr>c_id = 2, user_id = 2, item_id = 2, quantity = 1\<rparr>,
        \<lparr>c_id = 3, user_id = 1, item_id = 3, quantity = 1\<rparr>]
   \<and> cart (db_after shop (update_cart int_plain shop (Some 2) (1, [''quantity'' \<mapsto> ''0'']))) (Some 2) () =
       Inr (db_after shop (update_cart int_plain shop (Some 2) (1, [''quantity'' \<mapsto> ''0''])), [],
            RenderCart
              [\<lparr>l_cart_id = 2, l_item_id = 2, l_name = ''Classic Black Gown'', l_price = Fin 2499,
                l_quantity = 1, l_image_url = Some ''u2'', l_line_total = Fin 2499\<rparr>]
              (Fin 2499))
   \<and> carts (db_after shop (update_cart int_plain shop (Some 2) (1, [''quantity'' \<mapsto> ''5'']))) =
       [\<lparr>c_id = 1, user_id = 2, item_id = 1, quantity = 5\<rparr>,
        \<lparr>c_id = 2, user_id = 2, item_id = 2, quantity = 1\<rparr>,
        \<lparr>c_id = 3, user_id = 1, item_id = 3, quantity = 1\<rparr>]
   \<and> update_cart int_plain shop (Some 2) (1, [''quantity'' \<mapsto> ''9223372036854775808'']) =
       Inl OverflowError"
proof -
  have u: "current_user shop (Some 2) = Some demo_user" by (rule current_user_shop)
  note q0 = form_quantity_examples(1) and q5 = form_quantity_examples(2)
    and qbig = form_quantity_examples(4)
  have c1: "Cart_get shop 1 \<noteq> None" unfolding Cart_get_shop(1) by simp
  note c7 = Cart_get_shop(2)
  have k1: "sqlite_int (int 1)" and k7: "sqlite_int (int 7)"
    and kbig: "\<not> sqlite_int (int 9223372036854775808)"
    and s5: "sqlite_int 5" and sbig: "\<not> sqlite_int 9223372036854775808"
    by (simp_all add: sqlite_int_def)
  have ls: "viewCart_lines shop (u_id demo_user) =
              [\<lparr>l_cart_id = 1, l_item_id = 1, l_name = ''Red Summer Dress'', l_price = Fin 1299,
                l_quantity = 2, l_image_url = Some ''u1'', l_line_total = Fin 2598\<rparr>,
               \<lparr>l_cart_id = 2, l_item_id = 2, l_name = ''Classic Black Gown'', l_price = Fin 2499,
                l_quantity = 1, l_image_url = Some ''u2'', l_line_total = Fin 2499\<rparr>]"
    by (simp add: viewCart_lines_def entry_lines_def line_of_def float_of_int_def Item_get_def
          shop_def demo_user_def)
  note tk = update_cart_set_quantity[OF u q0, of 9223372036854775808]
  note t7 = update_cart_set_quantity[OF u q0, of 7]
  note t1 = update_cart_set_quantity[OF u q0, of 1]
  note t5 = update_cart_set_quantity[OF u q5, of 1]
  note tb = update_cart_set_quantity[OF u qbig, of 1]
  from tk kbig
  have ok: "update_cart int_plain shop (Some 2) (9223372036854775808, [''quantity'' \<mapsto> ''0'']) =
       Inl OverflowError" by blast
  from t7 k7 c7 have nf: "update_cart int_plain shop (Some 2) (7, [''quantity'' \<mapsto> ''0'']) = Inl NotFound"
    by blast
  have z: "(0::int) \<le> 0" and p: "(0::int) < 5" and pb: "(0::int) < 9223372036854775808"
    by simp_all
  from t1 k1 c1 z
  have d1: "db_after shop (update_cart int_plain shop (Some 2) (1, [''quantity'' \<mapsto> ''0''])) =
          shop\<lparr>carts := filter (\<lambda>r. c_id r \<noteq> 1) (carts shop)\<rparr>"
    by blast
  from t1 k1 c1 z u
  have v1: "cart (db_after shop (update_cart int_plain shop (Some 2) (1, [''quantity'' \<mapsto> ''0'']))) (Some 2) () =
          Inr (db_after shop (update_cart int_plain shop (Some 2) (1, [''quantity'' \<mapsto> ''0''])), [],
               RenderCart (filter (\<lambda>l. l_cart_id l \<noteq> 1) (viewCart_lines shop (u_id demo_user)))
                 (viewCart_total (filter (\<lambda>l. l_cart_id l \<noteq> 1) (viewCart_lines shop (u_id demo_user)))))"
    by blast
  from t5 k1 c1 p s5
  have d5: "db_after shop (update_cart int_plain shop (Some 2) (1, [''quantity'' \<mapsto> ''5''])) =
          shop\<lparr>carts := map (\<lambda>r. if c_id r = 1 then r\<lparr>quantity := 5\<rparr> else r) (carts shop)\<rparr>"
    by blast
  from tb k1 c1 pb sbig
  have ob: "update_cart int_plain shop (Some 2) (1, [''quantity'' \<mapsto> ''9223372036854775808'']) =
       Inl OverflowError" by blast
  have "carts (db_after shop (update_cart int_plain shop (Some 2) (1, [''quantity'' \<mapsto> ''0'']))) =
       [\<lparr>c_id = 2, user_id = 2, item_id = 2, quantity = 1\<rparr>,
        \<lparr>c_id = 3, user_id = 1, item_id = 3, quantity = 1\<rparr>]"
    unfolding d1 by (simp add: shop_def)
  moreover have "cart (db_after shop (update_cart int_plain shop (Some 2) (1, [''quantity'' \<mapsto> ''0'']))) (Some 2) () =
       Inr (db_after shop (update_cart int_plain shop (Some 2) (1, [''quantity'' \<mapsto> ''0''])), [],
            RenderCart
              [\<lparr>l_cart_id = 2, l_item_id = 2, l_name = ''Classic Black Gown'', l_price = Fin 2499,
                l_quantity = 1, l_image_url = Some ''u2'', l_line_total = Fin 2499\<rparr>]
              (Fin 2499))"
    unfolding v1 ls by (simp add: viewCart_total_def zero_pyfloat_def)
  moreover have "carts (db_after shop (update_cart int_plain shop (Some 2) (1, [''quantity'' \<mapsto> ''5'']))) =
       [\<lparr>c_id = 1, user_id = 2, item_id = 1, quantity = 5\<rparr>,
        \<lparr>c_id = 2, user_id = 2, item_id = 2, quantity = 1\<rparr>,
        \<lparr>c_id = 3, user_id = 1, item_id = 3, quantity = 1\<rparr>]"
    unfolding d5 by (simp add: shop_def)
  ultimately show ?thesis using u q0 q5 qbig ok nf ob by blast
qed

text \<open>
  C9 as stated fails for one kind of request: the admin, who does not own entry 1, asks
  for the quantity \<open>2^63\<close>; the request ends in \<open>OverflowError\<close> and the entry is
  neither modified nor deleted.
\<close>

theorem update_cart_any_user_counterexample:
  "current_user shop (Some 1) = Some admin_user
   \<and> Cart_get shop 1 = Some \<lparr>c_id = 1, user_id = 2, item_id = 1, quantity = 2\<rparr>
   \<and> update_cart int_plain shop (Some 1) (1, [''quantity'' \<mapsto> ''9223372036854775808'']) =
       Inl OverflowError
   \<and> db_after shop
        (update_cart int_plain shop (Some 1) (1, [''quantity'' \<mapsto> ''9223372036854775808''])) =
       shop"
proof -
  have p: "(0::int) < 9223372036854775808" by simp
  have q: "update_cart int_plain shop (Some 1) (1, [''quantity'' \<mapsto> ''9223372036854775808'']) =
       Inl OverflowError"
    by (rule update_cart_quantity_overflow[OF current_user_shop(1) form_quantity_examples(4)
          sqlite_int_examples(5) Cart_get_shop(1) p sqlite_int_examples(10)])
  then have "db_after shop
        (update_cart int_plain shop (Some 1) (1, [''quantity'' \<mapsto> ''9223372036854775808''])) =
       shop"
    by (simp add: db_after_def)
  with q current_user_shop(1) Cart_get_shop(1) show ?thesis by blast
qed

theorem update_cart_any_user_witness:
  "current_user shop (Some 1) = Some admin_user
   \<and> Cart_get shop 1 = Some \<lparr>c_id = 1, user_id = 2, item_id = 1, quantity = 2\<rparr>
   \<and> user_id \<lparr>c_id = 1, user_id = 2, item_id = 1, quantity = 2\<rparr> \<noteq> u_id admin_user
   \<and> sqlite_int (int 1)
   \<and> form_quantity int_plain [''quantity'' \<mapsto> ''0''] = Some 0
   \<and> update_cart int_plain shop (Some 1) (1, [''quantity'' \<mapsto> ''0'']) =
       Inr (shop\<lparr>carts := [\<lparr>c_id = 2, user_id = 2, item_id = 2, quantity = 1\<rparr>,
                            \<lparr>c_id = 3, user_id = 1, item_id = 3, quantity = 1\<rparr>]\<rparr>,
            [(''Cart updated.'', ''ok'')], Redirect ''cart'')
   \<and> form_quantity int_plain [''quantity'' \<mapsto> ''5''] = Some 5
   \<and> update_cart int_plain shop (Some 1) (1, [''quantity'' \<mapsto> ''5'']) =
       Inr (shop\<lparr>carts := [\<lparr>c_id = 1, user_id = 2, item_id = 1, quantity = 5\<rparr>,
                            \<lparr>c_id = 2, user_id = 2, item_id = 2, quantity = 1\<rparr>,
                            \<lparr>c_id = 3, user_id = 1, item_id = 3, quantity = 1\<rparr>]\<rparr>,
            [(''Cart updated.'', ''ok'')], Redirect ''cart'')
   \<and> form_quantity int_plain [''quantity'' \<mapsto> ''9223372036854775808''] = Some 9223372036854775808
   \<and> update_cart int_plain shop (Some 1) (1, [''quantity'' \<mapsto> ''9223372036854775808'']) =
       Inl OverflowError"
proof -
  have u: "current_user shop (Some 1) = Some admin_user" by (rule current_user_shop)
  note c = Cart_get_shop(1) and q0 = form_quantity_examples(1) and q5 = form_quantity_examples(2)
    and qbig = form_quantity_examples(4)
  have k: "sqlite_int (int 1)" by (simp add: sqlite_int_def)
  have z: "(0::int) \<le> 0" and p: "(0::int) < 5" and pb: "(0::int) < 9223372036854775808"
    and s5: "sqlite_int 5" and sbig: "\<not> sqlite_int 9223372036854775808"
    by (simp_all add: sqlite_int_def)
  from update_cart_any_user[OF u c k q0] z
  have "update_cart int_plain shop (Some 1) (1, [''quantity'' \<mapsto> ''0'']) =
          Inr (shop\<lparr>carts := filter (\<lambda>r. c_id r \<noteq> 1) (carts shop)\<rparr>,
               [(''Cart updated.'', ''ok'')], Redirect ''cart'')"
    by blast
  moreover have "filter (\<lambda>r. c_id r \<noteq> 1) (carts shop) =
      [\<lparr>c_id = 2, user_id = 2, item_id = 2, quantity = 1\<rparr>,
       \<lparr>c_id = 3, user_id = 1, item_id = 3, quantity = 1\<rparr>]"
    by (simp add: shop_def)
  ultimately have r0: "update_cart int_plain shop (Some 1) (1, [''quantity'' \<mapsto> ''0'']) =
       Inr (shop\<lparr>carts := [\<lparr>c_id = 2, user_id = 2, item_id = 2, quantity = 1\<rparr>,
                            \<lparr>c_id = 3, user_id = 1, item_id = 3, quantity = 1\<rparr>]\<rparr>,
            [(''Cart updated.'', ''ok'')], Redirect ''cart'')"
    by simp
  from update_cart_any_user[OF u c k q5] p s5
  have "update_cart int_plain shop (Some 1) (1, [''quantity'' \<mapsto> ''5'']) =
          Inr (shop\<lparr>carts := map (\<lambda>r. if c_id r = 1 then r\<lparr>quantity := 5\<rparr> else r) (carts shop)\<rparr>,
               [(''Cart updated.'', ''ok'')], Redirect ''cart'')"
    by blast
  moreover have "map (\<lambda>r. if c_id r = 1 then r\<lparr>quantity := 5\<rparr> else r) (carts shop) =
      [\<lparr>c_id = 1, user_id = 2, item_id = 1, quantity = 5\<rparr>,
       \<lparr>c_id = 2, user_id = 2, item_id = 2, quantity = 1\<rparr>,
       \<lparr>c_id = 3, user_id = 1, item_id = 3, quantity = 1\<rparr>]"
    by (simp add: shop_def)
  ultimately have r5: "update_cart int_plain shop (Some 1) (1, [''quantity'' \<mapsto> ''5'']) =
       Inr (shop\<lparr>carts := [\<lparr>c_id = 1, user_id = 2, item_id = 1, quantity = 5\<rparr>,
                            \<lparr>c_id = 2, user_id = 2, item_id = 2, quantity = 1\<rparr>,
                            \<lparr>c_id = 3, user_id = 1, item_id = 3, quantity = 1\<rparr>]\<rparr>,
            [(''Cart updated.'', ''ok'')], Redirect ''cart'')"
    by simp
  from update_cart_any_user[OF u c k qbig] pb sbig
  have rb: "update_cart int_plain shop (Some 1) (1, [''quantity'' \<mapsto> ''9223372036854775808'']) =
       Inl OverflowError"
    by blast
  have o: "user_id \<lparr>c_id = 1, user_id = 2, item_id = 1, quantity = 2\<rparr> \<noteq> u_id admin_user"
    by (simp add: admin_user_def)
  from u c o k q0 r0 q5 r5 qbig rb show ?thesis by blast
qed

text \<open>
  C5 as stated fails at the limit of the store: no item has the key \<open>2^63\<close>, and
  deleting it ends in \<open>OverflowError\<close>, not in \<open>NotFound\<close>.
\<close>

theorem admin_delete_item_overflow_counterexample:
  "Item_get shop 9223372036854775808 = None
   \<and> admin_delete_item shop (Some 1) 9223372036854775808 = Inl OverflowError"
proof -
  have a: "is_admin admin_user" by (simp add: admin_user_def)
  have "admin_delete_item shop (Some 1) 9223372036854775808 = Inl OverflowError"
    by (rule admin_delete_item_key_overflow[OF current_user_shop(1) a sqlite_int_examples(11)])
  with Item_get_shop(4) show ?thesis by blast
qed

theorem admin_delete_item_cascade_witness:
  "current_user shop (Some 1) = Some admin_user
   \<and> is_admin admin_user
   \<and> admin_delete_item shop (Some 1) 9223372036854775808 = Inl OverflowError
   \<and> admin_delete_item shop (Some 1) 9 = Inl NotFound
   \<and> db_after shop (admin_delete_item shop (Some 1) 1) =
       shop\<lparr>items :=
              [\<lparr>i_id = 2, name = ''Classic Black Gown'', price = Fin 2499, image_url = Some ''u2'', i_created_at = 0\<rparr>,
               \<lparr>i_id = 3, name = ''Floral Casual Dress'', price = Fin 1599, image_url = Some ''u3'', i_created_at = 0\<rparr>],
            carts :=
              [\<lparr>c_id = 2, user_id = 2, item_id = 2, quantity = 1\<rparr>,
               \<lparr>c_id = 3, user_id = 1, item_id = 3, quantity = 1\<rparr>]\<rparr>
   \<and> cart (db_after shop (admin_delete_item shop (Some 1) 1)) (Some 2) () =
       Inr (db_after shop (admin_delete_item shop (Some 1) 1), [],
            RenderCart
              [\<lparr>l_cart_id = 2, l_item_id = 2, l_name = ''Classic Black Gown'', l_price = Fin 2499,
                l_quantity = 1, l_image_url = Some ''u2'', l_line_total = Fin 2499\<rparr>]
              (Fin 2499))"
proof -
  have u: "current_user shop (Some 1) = Some admin_user" by (rule current_user_shop)
  have a: "is_admin admin_user" by (simp add: admin_user_def)
  have u2: "current_user shop (Some 2) = Some demo_user" by (rule current_user_shop)
  note i9 = Item_get_shop(3) and i1 = Item_get_shop(1)
  have k1: "sqlite_int (int 1)" and k9: "sqlite_int (int 9)"
    and kbig: "\<not> sqlite_int (int 9223372036854775808)"
    by (simp_all add: sqlite_int_def)
  note tb = admin_delete_item_cascade[OF u a, of 9223372036854775808]
  note t9 = admin_delete_item_cascade[OF u a, of 9]
  note t1 = admin_delete_item_cascade[OF u a, of 1]
  from tb kbig have ov: "admin_delete_item shop (Some 1) 9223372036854775808 = Inl OverflowError"
    by blast
  from t9 k9 i9 have nf: "admin_delete_item shop (Some 1) 9 = Inl NotFound" by blast
  from t1 k1 i1
  have d1: "db_after shop (admin_delete_item shop (Some 1) 1) =
          shop\<lparr>items := filter (\<lambda>i. i_id i \<noteq> 1) (items shop),
                carts := filter (\<lambda>r. item_id r \<noteq> 1) (carts shop)\<rparr>"
    by blast
  from t1 k1 i1 u2
  have v1: "cart (db_after shop (admin_delete_item shop (Some 1) 1)) (Some 2) () =
          Inr (db_after shop (admin_delete_item shop (Some 1) 1), [],
               RenderCart (filter (\<lambda>l. l_item_id l \<noteq> 1) (viewCart_lines shop (u_id demo_user)))
                 (viewCart_total (filter (\<lambda>l. l_item_id l \<noteq> 1) (viewCart_lines shop (u_id demo_user)))))"
    by blast
  have "db_after shop (admin_delete_item shop (Some 1) 1) =
       shop\<lparr>items :=
              [\<lparr>i_id = 2, name = ''Classic Black Gown'', price = Fin 2499, image_url = Some ''u2'', i_created_at = 0\<rparr>,
               \<lparr>i_id = 3, name = ''Floral Casual Dress'', price = Fin 1599, image_url = Some ''u3'', i_created_at = 0\<rparr>],
            carts :=
              [\<lparr>c_id = 2, user_id = 2, item_id = 2, quantity = 1\<rparr>,
               \<lparr>c_id = 3, user_id = 1, item_id = 3, quantity = 1\<rparr>]\<rparr>"
    unfolding d1 by (simp add: shop_def)
  moreover have "cart (db_after shop (admin_delete_item shop (Some 1) 1)) (Some 2) () =
       Inr (db_after shop (admin_delete_item shop (Some 1) 1), [],
            RenderCart
              [\<lparr>l_cart_id = 2, l_item_id = 2, l_name = ''Classic Black Gown'', l_price = Fin 2499,
                l_quantity = 1, l_image_url = Some ''u2'', l_line_total = Fin 2499\<rparr>]
              (Fin 2499))"
    unfolding v1 viewCart_lines_shop by (simp add: viewCart_total_def zero_pyfloat_def)
  ultimately show ?thesis using u a ov nf by blast
qed

text \<open>
  C7 as stated fails: with the price field \<open>abc\<close>, which \<open>float\<close> cannot read, the
  request ends in \<open>ValueError\<close> and the catalog is as before; no item with price 0 is
  created.
\<close>

theorem admin_unparseable_price_counterexample:
  "admin float_plain 5 shop (Some 1) (POST, [''name'' \<mapsto> ''Dress'', ''price'' \<mapsto> ''abc'']) =
     Inl ValueError
   \<and> items (db_after shop
        (admin float_plain 5 shop (Some 1) (POST, [''name'' \<mapsto> ''Dress'', ''price'' \<mapsto> ''abc'']))) =
     items shop"
proof -
  have a: "is_admin admin_user" by (simp add: admin_user_def)
  have "form_price float_plain [''name'' \<mapsto> ''Dress'', ''price'' \<mapsto> ''abc''] = None"
    by (simp add: form_price_def float_plain_examples)
  then have "admin float_plain 5 shop (Some 1) (POST, [''name'' \<mapsto> ''Dress'', ''price'' \<mapsto> ''abc'']) =
     Inl ValueError"
    by (rule admin_post_unparseable[OF current_user_shop(1) a])
  then show ?thesis by (simp add: db_after_def)
qed

lemma strip_form_examples:
  "strip (form_get [''name'' \<mapsto> '' '', ''price'' \<mapsto> ''12''] ''name'' '''') = []"
  "strip (form_get [''name'' \<mapsto> ''Dress''] ''name'' '''') = ''Dress''"
  "strip (form_get [''name'' \<mapsto> ''Dress'', ''price'' \<mapsto> ''12''] ''name'' '''') = ''Dress''"
  "strip (form_get [''name'' \<mapsto> ''Dress'', ''price'' \<mapsto> ''inf''] ''name'' '''') = ''Dress''"
  "strip (form_get [''name'' \<mapsto> ''Dress'', ''price'' \<mapsto> ''nan''] ''name'' '''') = ''Dress''"
  "strip (form_get [''name'' \<mapsto> ''Dress''] ''image_url'' '''') = []"
  "strip (form_get [''name'' \<mapsto> ''Dress'', ''price'' \<mapsto> ''12''] ''image_url'' '''') = []"
  "strip (form_get [''name'' \<mapsto> ''Dress'', ''price'' \<mapsto> ''inf''] ''image_url'' '''') = []"
  by (simp_all add: form_get_def strip_examples)

theorem admin_create_item_witness:
  "current_user shop (Some 1) = Some admin_user \<and> is_admin admin_user
   \<and> admin float_plain 5 shop (Some 1) (POST, [''name'' \<mapsto> ''Dress'', ''price'' \<mapsto> ''abc'']) =
       Inl ValueError
   \<and> admin float_plain 5 shop (Some 1) (POST, [''name'' \<mapsto> '' '', ''price'' \<mapsto> ''12'']) =
       Inr (shop, [(''Item name is required.'', ''error'')], Redirect ''admin'')
   \<and> admin float_plain 5 shop (Some 1) (POST, [''name'' \<mapsto> ''Dress'', ''price'' \<mapsto> ''nan'']) =
       Inl IntegrityError
   \<and> admin float_plain 5 shop (Some 1) (POST, [''name'' \<mapsto> ''Dress'']) =
       Inr (shop\<lparr>items := items shop @
              [\<lparr>i_id = 4, name = ''Dress'', price = Fin 0, image_url = Some [], i_created_at = 5\<rparr>]\<rparr>,
            [(''Item added.'', ''ok'')], Redirect ''admin'')
   \<and> admin float_plain 5 shop (Some 1) (POST, [''name'' \<mapsto> ''Dress'', ''price'' \<mapsto> ''12'']) =
       Inr (shop\<lparr>items := items shop @
              [\<lparr>i_id = 4, name = ''Dress'', price = Fin 12, image_url = Some [], i_created_at = 5\<rparr>]\<rparr>,
            [(''Item added.'', ''ok'')], Redirect ''admin'')
   \<and> admin float_plain 5 shop (Some 1) (POST, [''name'' \<mapsto> ''Dress'', ''price'' \<mapsto> ''inf'']) =
       Inr (shop\<lparr>items := items shop @
              [\<lparr>i_id = 4, name = ''Dress'', price = PInf, image_url = Some [], i_created_at = 5\<rparr>]\<rparr>,
            [(''Item added.'', ''ok'')], Redirect ''admin'')"
proof -
  let ?bad = "[''name'' \<mapsto> ''Dress'', ''price'' \<mapsto> ''abc'']"
  let ?blank = "[''name'' \<mapsto> '' '', ''price'' \<mapsto> ''12'']"
  let ?nan = "[''name'' \<mapsto> ''Dress'', ''price'' \<mapsto> ''nan'']"
  let ?noprice = "[''name'' \<mapsto> ''Dress'']"
  let ?good = "[''name'' \<mapsto> ''Dress'', ''price'' \<mapsto> ''12'']"
  let ?inf = "[''name'' \<mapsto> ''Dress'', ''price'' \<mapsto> ''inf'']"
  have u: "current_user shop (Some 1) = Some admin_user" by (rule current_user_shop)
  have a: "is_admin admin_user" by (simp add: admin_user_def)
  have p: "form_price float_plain ?bad = None" "form_price float_plain ?blank \<noteq> None"
    "form_price float_plain ?nan = Some NaN"
    "form_price float_plain ?noprice = Some (Fin 0)" "form_price float_plain ?good = Some (Fin 12)"
    "form_price float_plain ?inf = Some PInf"
    by (simp_all add: form_price_def float_plain_examples)
  note nm = strip_form_examples
  have ne: "''Dress'' \<noteq> []" and nn: "Fin 0 \<noteq> NaN" "Fin 12 \<noteq> NaN" "PInf \<noteq> NaN" by simp_all
  have n: "next_id (map i_id (items shop)) = 4" by (simp add: shop_def next_id_def)
  note t1 = admin_create_item[OF u a, of float_plain ?bad 5]
  note t2 = admin_create_item[OF u a, of float_plain ?blank 5]
  note t3 = admin_create_item[OF u a, of float_plain ?noprice 5, unfolded nm n]
  note t4 = admin_create_item[OF u a, of float_plain ?good 5, unfolded nm n]
  note t5 = admin_create_item[OF u a, of float_plain ?nan 5, unfolded nm n]
  note t6 = admin_create_item[OF u a, of float_plain ?inf 5, unfolded nm n]
  from t1 p(1) have "admin float_plain 5 shop (Some 1) (POST, ?bad) = Inl ValueError" by blast
  moreover from t2 p(2) nm(1)
  have "admin float_plain 5 shop (Some 1) (POST, ?blank) =
       Inr (shop, [(''Item name is required.'', ''error'')], Redirect ''admin'')" by blast
  moreover from t5 p(3) ne
  have "admin float_plain 5 shop (Some 1) (POST, ?nan) = Inl IntegrityError" by blast
  moreover from t3 p(4) ne nn
  have "admin float_plain 5 shop (Some 1) (POST, ?noprice) =
       Inr (shop\<lparr>items := items shop @
              [\<lparr>i_id = 4, name = ''Dress'', price = Fin 0, image_url = Some [], i_created_at = 5\<rparr>]\<rparr>,
            [(''Item added.'', ''ok'')], Redirect ''admin'')" by blast
  moreover from t4 p(5) ne nn
  have "admin float_plain 5 shop (Some 1) (POST, ?good) =
       Inr (shop\<lparr>items := items shop @
              [\<lparr>i_id = 4, name = ''Dress'', price = Fin 12, image_url = Some [], i_created_at = 5\<rparr>]\<rparr>,
            [(''Item added.'', ''ok'')], Redirect ''admin'')" by blast
  moreover from t6 p(6) ne nn
  have "admin float_plain 5 shop (Some 1) (POST, ?inf) =
       Inr (shop\<lparr>items := items shop @
              [\<lparr>i_id = 4, name = ''Dress'', price = PInf, image_url = Some [], i_created_at = 5\<rparr>]\<rparr>,
            [(''Item added.'', ''ok'')], Redirect ''admin'')" by blast
  ultimately show ?thesis using u a by blast
qed

end
